theory Spec2Isabelle
  imports Complex_Main "HOL-Library.Word"
begin

unbundle bit_operations_syntax

section \<open>Command line: \<open>die\<close> and the argument check of \<open>main\<close>\<close>

text \<open>
  \<open>die\<close> writes its message to the standard error stream and leaves the process with
  \<open>exit(EXIT_FAILURE)\<close>. The outcome of a run is either such an exit (the text
  written and the exit status) or the continuation into the window manager proper
  (\<open>setlocale\<close>, \<open>XOpenDisplay\<close>, \<open>setup\<close>, \<open>scan\<close>, \<open>run\<close>).
\<close>

datatype outcome = Exit string int | Run

definition EXIT_FAILURE :: int where
  "EXIT_FAILURE = 1"

definition EXIT_SUCCESS :: int where
  "EXIT_SUCCESS = 0"

definition die :: "string \<Rightarrow> outcome" where
  "die errstr = Exit errstr EXIT_FAILURE"

text \<open>
  \<open>VERSION\<close> and \<open>YEAR\<close> are string macros given on the compiler's command line;
  they are parameters here. \<open>argv\<close> is the argument vector, \<open>argc\<close> its length.
\<close>

definition version_text :: "string \<Rightarrow> string \<Rightarrow> string" where
  "version_text ver yr =
     ''dwm-'' @ ver @ '',  2006-'' @ yr @ '' dwm engineers, see LICENSE for details'' @ [CHR 0x0A]"

definition usage_text :: string where
  "usage_text = ''usage: dwm [-v]'' @ [CHR 0x0A]"

definition main :: "string \<Rightarrow> string \<Rightarrow> string list \<Rightarrow> outcome" where
  "main ver yr argv =
     (if length argv = 2 \<and> argv ! 1 = ''-v'' then die (version_text ver yr)
      else if length argv \<noteq> 1 then die usage_text
      else Run)"

fun exit_status :: "outcome \<Rightarrow> int option" where
  "exit_status (Exit msg st) = Some st"
| "exit_status Run = None"

section \<open>Data model\<close>

text \<open>
  The structures of \<open>dwm.c\<close>. C \<open>int\<close> is modelled by \<open>int\<close>; the fields hold values
  of the 32-bit range, and the arithmetic of \<open>applysizehints\<close> and \<open>tile\<close> is written
  with the two's complement wrap-around of the compiled code (\<open>s32\<close>, \<open>u32\<close>).
  \<open>unsigned int\<close> tag masks are 32-bit words. The \<open>float\<close> fields \<open>mina\<close> and \<open>maxa\<close> of
  a client are values of \<open>cfloat\<close>: a finite number, an infinity or a NaN; the finite
  numbers are exact reals (the rounding of \<open>float\<close> arithmetic is not modelled), as is
  the \<open>float\<close> field \<open>mfact\<close> of a monitor. \<open>Bool\<close> fields are \<open>bool\<close>. Pointers to clients and monitors are addresses (natural numbers) into two
  memories held by the state; a pointer that may be \<open>NULL\<close> is an \<open>option\<close>. The chains
  formed by \<open>Client.next\<close> and \<open>Client.snext\<close> are kept as the lists of addresses
  \<open>m_clients\<close> and \<open>m_stack\<close> of the owning monitor, the chain formed by
  \<open>Monitor.next\<close> as the list \<open>mons\<close> of the state.
\<close>

type_synonym addr = nat
type_synonym Window = nat
type_synonym tagmask = "32 word"

datatype cfloat = Finite real | PosInf | NegInf | NaN

record Client =
  c_name :: string
  c_mina :: cfloat
  c_maxa :: cfloat
  c_x :: int
  c_y :: int
  c_w :: int
  c_h :: int
  c_oldx :: int
  c_oldy :: int
  c_oldw :: int
  c_oldh :: int
  c_basew :: int
  c_baseh :: int
  c_incw :: int
  c_inch :: int
  c_maxw :: int
  c_maxh :: int
  c_minw :: int
  c_minh :: int
  c_bw :: int
  c_oldbw :: int
  c_tags :: tagmask
  c_isfixed :: bool
  c_isfloating :: bool
  c_isurgent :: bool
  c_neverfocus :: bool
  c_oldstate :: bool
  c_isfullscreen :: bool
  c_sizehints :: bool
  c_mon :: addr
  c_win :: Window

datatype arrange_fn = tile_fn | monocle_fn

record Layout =
  l_symbol :: string
  l_arrange :: "arrange_fn option"

record Monitor =
  m_ltsymbol :: string
  m_mfact :: real
  m_nmaster :: int
  m_nmaster_dynamic_max :: int
  m_num :: int
  m_by :: int
  m_mx :: int
  m_my :: int
  m_mw :: int
  m_mh :: int
  m_wx :: int
  m_wy :: int
  m_ww :: int
  m_wh :: int
  m_lmx :: int
  m_lmy :: int
  m_seltags :: "32 word"
  m_tagset :: "32 word \<Rightarrow> tagmask"
  m_showbar :: bool
  m_topbar :: bool
  m_clients :: "addr list"
  m_sel :: "addr option"
  m_stack :: "addr list"
  m_barwin :: Window
  m_lt :: Layout

record Rule =
  r_class :: "string option"
  r_instance :: "string option"
  r_title :: "string option"
  r_tags :: tagmask
  r_isfloating :: bool
  r_monitor :: int
  r_sizehints :: bool

text \<open>
  The global variables that the modelled functions read or write. \<open>cl\<close> is the memory
  of client structures and \<open>mn\<close> the memory of monitor structures; \<open>free\<close> leaves both
  unchanged, so a dangling pointer reads the old contents, as it would in C.
\<close>

record State =
  cl :: "addr \<Rightarrow> Client"
  mn :: "addr \<Rightarrow> Monitor"
  mons :: "addr list"
  selmon :: addr
  prevmon :: "addr option"
  prevclient :: "addr option"
  gappx :: int
  sw :: int
  sh :: int
  bh :: int
  root :: Window

section \<open>Configuration (\<open>config.def.h\<close>)\<close>

definition borderpx :: int where
  "borderpx = 5"

definition uselessgap :: int where
  "uselessgap = 5"

definition showbar :: bool where
  "showbar = True"

definition topbar :: bool where
  "topbar = True"

text \<open>The nine tag names \<open>"1"\<close> to \<open>"9"\<close>, each one character long.\<close>

definition tags :: "string list" where
  "tags = map (\<lambda>d. [d]) ''123456789''"

definition startuptags :: tagmask where
  "startuptags = 1"

definition rules :: "Rule list" where
  "rules =
    [\<lparr>r_class = Some ''Gimp'', r_instance = None, r_title = None, r_tags = 0,
      r_isfloating = True, r_monitor = -1, r_sizehints = False\<rparr>,
     \<lparr>r_class = Some ''Firefox'', r_instance = None, r_title = None, r_tags = push_bit 8 1,
      r_isfloating = False, r_monitor = -1, r_sizehints = False\<rparr>]"

definition nmaster_dynamic_max :: int where
  "nmaster_dynamic_max = 4"

definition nmaster :: int where
  "nmaster = 0"

definition mfact :: real where
  "mfact = 0.55"

definition sizehints_default :: bool where
  "sizehints_default = True"

definition layouts :: "Layout list" where
  "layouts =
    [\<lparr>l_symbol = ''[]='', l_arrange = Some tile_fn\<rparr>,
     \<lparr>l_symbol = ''><>'', l_arrange = None\<rparr>,
     \<lparr>l_symbol = ''[M]'', l_arrange = Some monocle_fn\<rparr>]"

section \<open>Macros\<close>

definition TAGMASK :: tagmask where
  "TAGMASK = push_bit (length tags) 1 - 1"

definition WIDTH :: "Client \<Rightarrow> int" where
  "WIDTH c = c_w c + 2 * c_bw c"

definition HEIGHT :: "Client \<Rightarrow> int" where
  "HEIGHT c = c_h c + 2 * c_bw c"

definition ISVISIBLE :: "State \<Rightarrow> addr \<Rightarrow> bool" where
  "ISVISIBLE s a =
     (let m = mn s (c_mon (cl s a)) in c_tags (cl s a) AND m_tagset m (m_seltags m) \<noteq> 0)"

text \<open>C's \<open>%\<close> truncates towards zero: the remainder has the sign of the dividend.\<close>

definition c_rem :: "int \<Rightarrow> int \<Rightarrow> int" where
  "c_rem a b = sgn a * (\<bar>a\<bar> mod \<bar>b\<bar>)"

text \<open>
  Machine arithmetic: \<open>u32\<close> is the value of an \<open>unsigned int\<close> expression (modulo
  \<open>2 ^ 32\<close>), \<open>s32\<close> the value of an \<open>int\<close> expression as the compiled code computes
  it (two's complement, wrapping around). Both are ring homomorphisms modulo \<open>2 ^ 32\<close>,
  so wrapping the result of an expression of sums, differences and products is the
  same as wrapping each operation.
\<close>

definition u32 :: "int \<Rightarrow> int" where
  "u32 v = v mod 2 ^ 32"

definition s32 :: "int \<Rightarrow> int" where
  "s32 v = (let r = v mod 2 ^ 32 in if r < 2 ^ 31 then r else r - 2 ^ 32)"

text \<open>
  Conversion of a floating value to an integer type truncates towards zero
  (\<open>trunc\<close>). \<open>float_to_int\<close> is the conversion to \<open>int\<close>: for a value out of the range
  of \<open>int\<close> the C standard leaves the result open, and the conversion instruction of
  the x86 gives \<open>INT_MIN\<close>.
\<close>

definition trunc :: "real \<Rightarrow> int" where
  "trunc r = (if 0 \<le> r then \<lfloor>r\<rfloor> else \<lceil>r\<rceil>)"

definition float_to_int :: "real \<Rightarrow> int" where
  "float_to_int r = (if - (2 ^ 31) - 1 < r \<and> r < 2 ^ 31 then trunc r else - (2 ^ 31))"

text \<open>
  The \<open>float\<close> operations of the size hints. \<open>float_div a b\<close> is \<open>(float)a / b\<close> for
  two \<open>int\<close>s: a zero divisor gives an infinity, or a NaN for \<open>0 / 0\<close>.
  \<open>float_less\<close> is \<open><\<close>, which is false when an operand is a NaN.
  \<open>float_scale a f\<close> is the \<open>int\<close> assigned by \<open>a * f + 0.5\<close>.
\<close>

definition float_div :: "int \<Rightarrow> int \<Rightarrow> cfloat" where
  "float_div a b =
     (if b \<noteq> 0 then Finite (real_of_int a / real_of_int b)
      else if a > 0 then PosInf else if a < 0 then NegInf else NaN)"

fun float_less :: "cfloat \<Rightarrow> cfloat \<Rightarrow> bool" where
  "float_less (Finite a) (Finite b) = (a < b)"
| "float_less (Finite a) PosInf = True"
| "float_less NegInf (Finite b) = True"
| "float_less NegInf PosInf = True"
| "float_less a b = False"

definition float_scale :: "int \<Rightarrow> cfloat \<Rightarrow> int" where
  "float_scale a f =
     (case f of
        Finite r \<Rightarrow> float_to_int (real_of_int a * r + 1 / 2)
      | PosInf \<Rightarrow> - (2 ^ 31)
      | NegInf \<Rightarrow> - (2 ^ 31)
      | NaN \<Rightarrow> - (2 ^ 31))"

section \<open>Size hints\<close>

text \<open>
  \<open>applysizehints(c, &x, &y, &w, &h, interact)\<close>: the adjusted rectangle and the
  returned flag (whether it differs from the client's current geometry). The client is
  passed as its structure together with the state that holds its monitor. The body is
  split at its two blocks: the clamping of the position (against the screen when
  \<open>interact\<close>, against the work area of the monitor otherwise) and the ICCCM size
  adjustment. The \<open>int\<close> arithmetic wraps around (\<open>s32\<close>).
\<close>

definition sizehints_position ::
  "State \<Rightarrow> Client \<Rightarrow> bool \<Rightarrow> int \<times> int \<times> int \<times> int \<Rightarrow> int \<times> int" where
  "sizehints_position s c interact r =
    (let (x0, y0, w1, h1) = r; m = mn s (c_mon c) in
     if interact then
       (let xa = (if x0 \<ge> sw s then s32 (sw s - WIDTH c) else x0);
            ya = (if y0 > sh s then s32 (sh s - HEIGHT c) else y0);
            xb = (if s32 (xa + w1 + 2 * c_bw c) < 0 then 0 else xa);
            yb = (if s32 (ya + h1 + 2 * c_bw c) < 0 then 0 else ya)
        in (xb, yb))
     else
       (let xa = (if x0 \<ge> s32 (m_wx m + m_ww m) then s32 (m_wx m + m_ww m - WIDTH c) else x0);
            ya = (if y0 \<ge> s32 (m_wy m + m_wh m) then s32 (m_wy m + m_wh m - HEIGHT c) else y0);
            xb = (if s32 (xa + w1 + 2 * c_bw c) \<le> m_wx m then m_wx m else xa);
            yb = (if s32 (ya + h1 + 2 * c_bw c) \<le> m_wy m then m_wy m else ya)
        in (xb, yb)))"

definition sizehints_size :: "Client \<Rightarrow> int \<times> int \<Rightarrow> int \<times> int" where
  "sizehints_size c r =
    (let (w2, h2) = r;
         baseismin = (c_basew c = c_minw c \<and> c_baseh c = c_minh c);
         (w3, h3) = (if \<not> baseismin then (s32 (w2 - c_basew c), s32 (h2 - c_baseh c))
                     else (w2, h2));
         (w4, h4) =
           (if float_less (Finite 0) (c_mina c) \<and> float_less (Finite 0) (c_maxa c) then
              (if float_less (c_maxa c) (float_div w3 h3)
                 then (float_scale h3 (c_maxa c), h3)
               else if float_less (c_mina c) (float_div h3 w3)
                 then (w3, float_scale w3 (c_mina c))
               else (w3, h3))
            else (w3, h3));
         (w5, h5) = (if baseismin then (s32 (w4 - c_basew c), s32 (h4 - c_baseh c))
                     else (w4, h4));
         w6 = (if c_incw c \<noteq> 0 then s32 (w5 - c_rem w5 (c_incw c)) else w5);
         h6 = (if c_inch c \<noteq> 0 then s32 (h5 - c_rem h5 (c_inch c)) else h5);
         w7 = max (s32 (w6 + c_basew c)) (c_minw c);
         h7 = max (s32 (h6 + c_baseh c)) (c_minh c);
         w8 = (if c_maxw c \<noteq> 0 then min w7 (c_maxw c) else w7);
         h8 = (if c_maxh c \<noteq> 0 then min h7 (c_maxh c) else h7)
     in (w8, h8))"

definition applysizehints ::
  "State \<Rightarrow> Client \<Rightarrow> int \<times> int \<times> int \<times> int \<Rightarrow> bool \<Rightarrow> bool \<times> int \<times> int \<times> int \<times> int" where
  "applysizehints s c r interact =
    (let (x0, y0, w0, h0) = r;
         m = mn s (c_mon c);
         w1 = max 1 w0;
         h1 = max 1 h0;
         (x1, y1) = sizehints_position s c interact (x0, y0, w1, h1);
         h2 = (if h1 < bh s then bh s else h1);
         w2 = (if w1 < bh s then bh s else w1);
         (w9, h9) =
           (if c_sizehints c \<or> c_isfloating c \<or> l_arrange (m_lt m) = None
            then sizehints_size c (w2, h2) else (w2, h2))
     in (x1 \<noteq> c_x c \<or> y1 \<noteq> c_y c \<or> w9 \<noteq> c_w c \<or> h9 \<noteq> c_h c, x1, y1, w9, h9))"

section \<open>Client lists and the focus stack\<close>

text \<open>
  Requests to the X server (moving, mapping and configuring windows, grabs, properties,
  drawing the bar) do not change the modelled state and are left out; what a function
  reads from the server is a parameter of its model.
\<close>

definition upd_cl :: "State \<Rightarrow> addr \<Rightarrow> (Client \<Rightarrow> Client) \<Rightarrow> State" where
  "upd_cl s a f = s\<lparr>cl := (cl s)(a := f (cl s a))\<rparr>"

definition upd_mn :: "State \<Rightarrow> addr \<Rightarrow> (Monitor \<Rightarrow> Monitor) \<Rightarrow> State" where
  "upd_mn s i f = s\<lparr>mn := (mn s)(i := f (mn s i))\<rparr>"

definition attach :: "State \<Rightarrow> addr \<Rightarrow> State" where
  "attach s a = upd_mn s (c_mon (cl s a)) (\<lambda>m. m\<lparr>m_clients := a # m_clients m\<rparr>)"

definition attachstack :: "State \<Rightarrow> addr \<Rightarrow> State" where
  "attachstack s a = upd_mn s (c_mon (cl s a)) (\<lambda>m. m\<lparr>m_stack := a # m_stack m\<rparr>)"

text \<open>
  \<open>detach\<close> and \<open>detachstack\<close> unlink the first occurrence of the client from the
  chain of its monitor. (For a client that is not in the chain the C code stores the
  client's stale successor at the end of the chain; the lists do not record the
  successor of such a client and are left unchanged.)
\<close>

definition detach :: "State \<Rightarrow> addr \<Rightarrow> State" where
  "detach s a = upd_mn s (c_mon (cl s a)) (\<lambda>m. m\<lparr>m_clients := remove1 a (m_clients m)\<rparr>)"

definition detachstack :: "State \<Rightarrow> addr \<Rightarrow> State" where
  "detachstack s a =
    (let i = c_mon (cl s a);
         s1 = upd_mn s i (\<lambda>m. m\<lparr>m_stack := remove1 a (m_stack m)\<rparr>)
     in if m_sel (mn s1 i) = Some a
        then upd_mn s1 i (\<lambda>m. m\<lparr>m_sel := find (ISVISIBLE s1) (m_stack m)\<rparr>)
        else s1)"

definition unfocus :: "State \<Rightarrow> addr option \<Rightarrow> bool \<Rightarrow> State" where
  "unfocus s c setfocus = (case c of None \<Rightarrow> s | Some a \<Rightarrow> s\<lparr>prevclient := Some a\<rparr>)"

definition clearurgent :: "State \<Rightarrow> addr \<Rightarrow> State" where
  "clearurgent s a = upd_cl s a (\<lambda>c. c\<lparr>c_isurgent := False\<rparr>)"

text \<open>
  \<open>focus(c)\<close> in three pieces: the client that is focused (the argument, or the first
  visible client of the selected monitor's stack when the argument is null or hidden),
  the block run for a non-null client, and the function itself.
\<close>

definition focus_target :: "State \<Rightarrow> addr option \<Rightarrow> addr option" where
  "focus_target s c0 =
    (case c0 of
       None \<Rightarrow> find (ISVISIBLE s) (m_stack (mn s (selmon s)))
     | Some a \<Rightarrow> if ISVISIBLE s a then Some a
                 else find (ISVISIBLE s) (m_stack (mn s (selmon s))))"

definition focus_client :: "State \<Rightarrow> addr \<Rightarrow> State" where
  "focus_client s1 a =
    (let sa = (if c_mon (cl s1 a) \<noteq> selmon s1 then s1\<lparr>selmon := c_mon (cl s1 a)\<rparr> else s1);
         sb = (if c_isurgent (cl sa a) then clearurgent sa a else sa);
         sc = detachstack sb a
     in attachstack sc a)"

definition focus :: "State \<Rightarrow> addr option \<Rightarrow> State" where
  "focus s c0 =
    (let c = focus_target s c0;
         s1 = (if m_sel (mn s (selmon s)) \<noteq> None \<and> m_sel (mn s (selmon s)) \<noteq> c
               then unfocus s (m_sel (mn s (selmon s))) False else s);
         s2 = (case c of None \<Rightarrow> s1 | Some a \<Rightarrow> focus_client s1 a)
     in upd_mn s2 (selmon s2) (\<lambda>m. m\<lparr>m_sel := c\<rparr>))"

section \<open>Resizing and the layouts\<close>

definition resizeclient :: "State \<Rightarrow> addr \<Rightarrow> int \<Rightarrow> int \<Rightarrow> int \<Rightarrow> int \<Rightarrow> State" where
  "resizeclient s a x y w h =
     upd_cl s a (\<lambda>c. c\<lparr>c_oldx := c_x c, c_x := x, c_oldy := c_y c, c_y := y,
                        c_oldw := c_w c, c_w := w, c_oldh := c_h c, c_h := h\<rparr>)"

definition resize :: "State \<Rightarrow> addr \<Rightarrow> int \<Rightarrow> int \<Rightarrow> int \<Rightarrow> int \<Rightarrow> bool \<Rightarrow> State" where
  "resize s a x y w h interact =
    (case applysizehints s (cl s a) (x, y, w, h) interact of
       (changed, x', y', w', h') \<Rightarrow> if changed then resizeclient s a x' y' w' h' else s)"

text \<open>\<open>showhide\<close> walks the focus stack; only its calls of \<open>resize\<close> change the state.\<close>

fun showhide :: "State \<Rightarrow> addr list \<Rightarrow> State" where
  "showhide s [] = s"
| "showhide s (a # as) =
    (if ISVISIBLE s a then
       showhide
         (if (l_arrange (m_lt (mn s (c_mon (cl s a)))) = None \<or> c_isfloating (cl s a))
              \<and> \<not> c_isfullscreen (cl s a)
          then resize s a (c_x (cl s a)) (c_y (cl s a)) (c_w (cl s a)) (c_h (cl s a)) False
          else s) as
     else showhide s as)"

text \<open>
  \<open>nexttiled\<close> skips the clients that are floating or not visible; the loops below that
  run \<open>for(c = nexttiled(m->clients); c; c = nexttiled(c->next))\<close> recurse over the
  client list and skip those clients.
\<close>

definition istiled :: "State \<Rightarrow> addr \<Rightarrow> bool" where
  "istiled s a \<longleftrightarrow> \<not> (c_isfloating (cl s a) \<or> \<not> ISVISIBLE s a)"

definition nexttiled :: "State \<Rightarrow> addr list \<Rightarrow> addr list" where
  "nexttiled s as = dropWhile (\<lambda>a. \<not> istiled s a) as"

text \<open>
  The local variables of \<open>tile\<close> are \<open>unsigned int\<close>: their arithmetic is modulo
  \<open>2 ^ 32\<close> (\<open>u32\<close>), and a value passed for an \<open>int\<close> parameter is read back in
  two's complement (\<open>s32\<close>).
\<close>

fun tile_loop ::
  "State \<Rightarrow> addr \<Rightarrow> int \<Rightarrow> int \<Rightarrow> int \<Rightarrow> addr list \<Rightarrow> int \<Rightarrow> int \<Rightarrow> int \<Rightarrow> State" where
  "tile_loop s i n an mw [] k my ty = s"
| "tile_loop s i n an mw (a # as) k my ty =
    (if \<not> istiled s a then tile_loop s i n an mw as k my ty
     else
       (let m = mn s i; b = c_bw (cl s a) in
        if k < an then
          (let h = u32 (m_wh m - my) div u32 (min n an - k);
               s1 = resize s a (m_wx m + gappx s) (s32 (m_wy m + my + gappx s))
                      (s32 (mw - 2 * b - 2 * gappx s)) (s32 (h - 2 * b - 2 * gappx s)) False
           in tile_loop s1 i n an mw as (u32 (k + 1))
                (u32 (my + HEIGHT (cl s1 a) + 2 * gappx s1)) ty)
        else
          (let h = u32 (m_wh m - ty) div u32 (n - k);
               s1 = resize s a (s32 (m_wx m + mw + gappx s)) (s32 (m_wy m + ty + gappx s))
                      (s32 (m_ww m - mw - 2 * b - 2 * gappx s)) (s32 (h - 2 * b - 2 * gappx s))
                      False
           in tile_loop s1 i n an mw as (u32 (k + 1)) my
                (u32 (ty + HEIGHT (cl s1 a) + 2 * gappx s1)))))"

definition tile :: "State \<Rightarrow> addr \<Rightarrow> State" where
  "tile s i =
    (let m = mn s i;
         n = u32 (int (length (filter (istiled s) (m_clients m))))
     in if n = 0 then s
        else
          (let an = (if m_nmaster m \<noteq> 0 then u32 (m_nmaster m)
                     else if max (n div 2) 1 < u32 (m_nmaster_dynamic_max m)
                          then max (n div 2) 1 else u32 (m_nmaster_dynamic_max m));
               mw = (if n > an
                     then (if an \<noteq> 0 then u32 (trunc (real_of_int (m_ww m) * m_mfact m)) else 0)
                     else u32 (m_ww m))
           in tile_loop s i n an mw (m_clients m) 0 0 0))"

fun dec :: "nat \<Rightarrow> string" where
  "dec n = (if n < 10 then [char_of (48 + n)] else dec (n div 10) @ [char_of (48 + n mod 10)])"

declare dec.simps [simp del]

fun monocle_loop :: "State \<Rightarrow> addr \<Rightarrow> addr list \<Rightarrow> State" where
  "monocle_loop s i [] = s"
| "monocle_loop s i (a # as) =
    (if \<not> istiled s a then monocle_loop s i as
     else
       (let m = mn s i; b = c_bw (cl s a) in
        monocle_loop
          (resize s a (m_wx m + gappx s) (m_wy m + gappx s)
             (m_ww m - 2 * b - 2 * gappx s) (m_wh m - 2 * b - 2 * gappx s) False) i as))"

definition monocle :: "State \<Rightarrow> addr \<Rightarrow> State" where
  "monocle s i =
    (let n = length (filter (ISVISIBLE s) (m_clients (mn s i)));
         s1 = (if n > 0
               then upd_mn s i (\<lambda>m. m\<lparr>m_ltsymbol := take 15 (''['' @ dec n @ '']'')\<rparr>)
               else s)
     in monocle_loop s1 i (m_clients (mn s1 i)))"

definition arrangemon :: "State \<Rightarrow> addr \<Rightarrow> State" where
  "arrangemon s i =
    (let s1 = upd_mn s i (\<lambda>m. m\<lparr>m_ltsymbol := take 16 (l_symbol (m_lt m))\<rparr>)
     in case l_arrange (m_lt (mn s1 i)) of
          None \<Rightarrow> s1
        | Some tile_fn \<Rightarrow> tile s1 i
        | Some monocle_fn \<Rightarrow> monocle s1 i)"

text \<open>\<open>restack\<close> draws the bar and orders the windows on the server.\<close>

definition restack :: "State \<Rightarrow> addr \<Rightarrow> State" where
  "restack s i = s"

definition arrange :: "State \<Rightarrow> addr option \<Rightarrow> State" where
  "arrange s mo =
    (case mo of
       Some i \<Rightarrow> restack (arrangemon (showhide s (m_stack (mn s i))) i) i
     | None \<Rightarrow>
         (let s1 = fold (\<lambda>i t. showhide t (m_stack (mn t i))) (mons s) s
          in fold (\<lambda>i t. arrangemon t i) (mons s1) s1))"

section \<open>Tags and views\<close>

text \<open>The \<open>ui\<close> member of the argument union is passed as a word.\<close>

definition view :: "State \<Rightarrow> 32 word \<Rightarrow> State" where
  "view s ui =
    (let m = mn s (selmon s) in
     if ui AND TAGMASK = m_tagset m (m_seltags m) then s
     else
       (let s1 = upd_mn s (selmon s) (\<lambda>m. m\<lparr>m_seltags := m_seltags m XOR 1\<rparr>);
            s2 = (if ui AND TAGMASK \<noteq> 0
                  then upd_mn s1 (selmon s1)
                         (\<lambda>m. m\<lparr>m_tagset := (m_tagset m)(m_seltags m := ui AND TAGMASK)\<rparr>)
                  else s1);
            s3 = focus s2 None
        in arrange s3 (Some (selmon s3))))"

definition toggleview :: "State \<Rightarrow> 32 word \<Rightarrow> State" where
  "toggleview s ui =
    (let m = mn s (selmon s);
         newtagset = m_tagset m (m_seltags m) XOR (ui AND TAGMASK)
     in if newtagset \<noteq> 0
        then (let s1 = upd_mn s (selmon s)
                         (\<lambda>m. m\<lparr>m_tagset := (m_tagset m)(m_seltags m := newtagset)\<rparr>);
                  s2 = focus s1 None
              in arrange s2 (Some (selmon s2)))
        else s)"

definition tag :: "State \<Rightarrow> 32 word \<Rightarrow> State" where
  "tag s ui =
    (case m_sel (mn s (selmon s)) of
       None \<Rightarrow> s
     | Some a \<Rightarrow>
         if ui AND TAGMASK \<noteq> 0
         then (let s1 = upd_cl s a (\<lambda>c. c\<lparr>c_tags := ui AND TAGMASK\<rparr>);
                   s2 = focus s1 None
               in arrange s2 (Some (selmon s2)))
         else s)"

definition toggletag :: "State \<Rightarrow> 32 word \<Rightarrow> State" where
  "toggletag s ui =
    (case m_sel (mn s (selmon s)) of
       None \<Rightarrow> s
     | Some a \<Rightarrow>
         (let newtags = c_tags (cl s a) XOR (ui AND TAGMASK) in
          if newtags \<noteq> 0
          then (let s1 = upd_cl s a (\<lambda>c. c\<lparr>c_tags := newtags\<rparr>);
                    s2 = focus s1 None
                in arrange s2 (Some (selmon s2)))
          else s))"

definition pop :: "State \<Rightarrow> addr \<Rightarrow> State" where
  "pop s a =
    (let s1 = detach s a; s2 = attach s1 a; s3 = focus s2 (Some a)
     in arrange s3 (Some (c_mon (cl s3 a))))"

definition sendmon :: "State \<Rightarrow> addr \<Rightarrow> addr \<Rightarrow> State" where
  "sendmon s a i =
    (if c_mon (cl s a) = i then s
     else
       (let s1 = unfocus s (Some a) True;
            s2 = detach s1 a;
            s3 = detachstack s2 a;
            s4 = upd_cl s3 a (\<lambda>c. c\<lparr>c_mon := i\<rparr>);
            s5 = upd_cl s4 a (\<lambda>c. c\<lparr>c_tags := m_tagset (mn s4 i) (m_seltags (mn s4 i))\<rparr>);
            s6 = attach s5 a;
            s7 = attachstack s6 a;
            s8 = focus s7 None
        in arrange s8 None))"

section \<open>Fullscreen\<close>

definition setfullscreen :: "State \<Rightarrow> addr \<Rightarrow> bool \<Rightarrow> State" where
  "setfullscreen s a fullscreen =
    (if fullscreen then
       (let s1 = upd_cl s a (\<lambda>c. c\<lparr>c_isfullscreen := True\<rparr>);
            s2 = upd_cl s1 a (\<lambda>c. c\<lparr>c_oldstate := c_isfloating c\<rparr>);
            s3 = upd_cl s2 a (\<lambda>c. c\<lparr>c_oldbw := c_bw c\<rparr>);
            s4 = upd_cl s3 a (\<lambda>c. c\<lparr>c_bw := 0\<rparr>);
            s5 = upd_cl s4 a (\<lambda>c. c\<lparr>c_isfloating := True\<rparr>);
            m = mn s5 (c_mon (cl s5 a))
        in resizeclient s5 a (m_mx m) (m_my m) (m_mw m) (m_mh m))
     else
       (let s1 = upd_cl s a (\<lambda>c. c\<lparr>c_isfullscreen := False\<rparr>);
            s2 = upd_cl s1 a (\<lambda>c. c\<lparr>c_isfloating := c_oldstate c\<rparr>);
            s3 = upd_cl s2 a (\<lambda>c. c\<lparr>c_bw := c_oldbw c\<rparr>);
            s4 = upd_cl s3 a (\<lambda>c. c\<lparr>c_x := c_oldx c\<rparr>);
            s5 = upd_cl s4 a (\<lambda>c. c\<lparr>c_y := c_oldy c\<rparr>);
            s6 = upd_cl s5 a (\<lambda>c. c\<lparr>c_w := c_oldw c\<rparr>);
            s7 = upd_cl s6 a (\<lambda>c. c\<lparr>c_h := c_oldh c\<rparr>);
            s8 = resizeclient s7 a (c_x (cl s7 a)) (c_y (cl s7 a)) (c_w (cl s7 a)) (c_h (cl s7 a))
        in arrange s8 (Some (c_mon (cl s8 a)))))"

definition togglefullscreen :: "State \<Rightarrow> State" where
  "togglefullscreen s =
    (case m_sel (mn s (selmon s)) of
       None \<Rightarrow> s
     | Some a \<Rightarrow> if \<not> c_isfullscreen (cl s a) then setfullscreen s a True
                 else setfullscreen s a False)"

section \<open>What is read from the X server\<close>

text \<open>
  The attributes and properties of a window that \<open>manage\<close> and the \<open>update...\<close>
  functions fetch from the server. A text property is \<open>None\<close> when it has no items
  (\<open>gettextprop\<close> then returns \<open>False\<close>); \<open>xw_transient_for\<close> is \<open>None\<close> when
  \<open>XGetTransientForHint\<close> fails; the normal hints and the WM hints are \<open>None\<close> when
  \<open>XGetWMNormalHints\<close> or \<open>XGetWMHints\<close> fail. The two atom properties are given by what
  the code compares them with: whether \<open>_NET_WM_STATE\<close> is the fullscreen atom, and
  whether \<open>_NET_WM_WINDOW_TYPE\<close> is the dialog atom.
\<close>

record XWindowAttributes =
  wa_x :: int
  wa_y :: int
  wa_width :: int
  wa_height :: int
  wa_border_width :: int
  wa_override_redirect :: bool

record XSizeHints =
  sz_PBaseSize :: bool
  sz_PMinSize :: bool
  sz_PResizeInc :: bool
  sz_PMaxSize :: bool
  sz_PAspect :: bool
  sz_base_width :: int
  sz_base_height :: int
  sz_min_width :: int
  sz_min_height :: int
  sz_width_inc :: int
  sz_height_inc :: int
  sz_max_width :: int
  sz_max_height :: int
  sz_min_aspect_x :: int
  sz_min_aspect_y :: int
  sz_max_aspect_x :: int
  sz_max_aspect_y :: int

record XWMHints =
  wmh_XUrgencyHint :: bool
  wmh_InputHint :: bool
  wmh_input :: bool

record XClassHint =
  res_name :: "string option"
  res_class :: "string option"

record XWin =
  xw_net_wm_name :: "string option"
  xw_wm_name :: "string option"
  xw_transient_for :: "Window option"
  xw_class_hint :: XClassHint
  xw_normal_hints :: "XSizeHints option"
  xw_wm_hints :: "XWMHints option"
  xw_state_fullscreen :: bool
  xw_type_dialog :: bool

section \<open>Managing and unmanaging clients\<close>

definition broken :: string where
  "broken = ''broken''"

text \<open>\<open>strstr(hay, needle) != NULL\<close>: the needle occurs in the haystack.\<close>

fun strstr :: "string \<Rightarrow> string \<Rightarrow> bool" where
  "strstr [] needle = (needle = [])"
| "strstr (h # hs) needle = (take (length needle) (h # hs) = needle \<or> strstr hs needle)"

text \<open>\<open>wintoclient\<close> searches the client lists of the monitors in order.\<close>

definition wintoclient :: "State \<Rightarrow> Window \<Rightarrow> addr option" where
  "wintoclient s w =
     find (\<lambda>a. c_win (cl s a) = w) (concat (map (\<lambda>i. m_clients (mn s i)) (mons s)))"

text \<open>The structure \<open>calloc\<close> returns: every field zero.\<close>

definition zero_client :: Client where
  "zero_client =
    \<lparr>c_name = [], c_mina = Finite 0, c_maxa = Finite 0, c_x = 0, c_y = 0, c_w = 0, c_h = 0,
     c_oldx = 0, c_oldy = 0, c_oldw = 0, c_oldh = 0,
     c_basew = 0, c_baseh = 0, c_incw = 0, c_inch = 0, c_maxw = 0, c_maxh = 0,
     c_minw = 0, c_minh = 0, c_bw = 0, c_oldbw = 0, c_tags = 0,
     c_isfixed = False, c_isfloating = False, c_isurgent = False, c_neverfocus = False,
     c_oldstate = False, c_isfullscreen = False, c_sizehints = False, c_mon = 0, c_win = 0\<rparr>"

definition updatetitle :: "State \<Rightarrow> addr \<Rightarrow> XWin \<Rightarrow> State" where
  "updatetitle s a xw =
    (let name = (case xw_net_wm_name xw of
                   Some t \<Rightarrow> take 255 t
                 | None \<Rightarrow> (case xw_wm_name xw of Some t \<Rightarrow> take 255 t | None \<Rightarrow> []))
     in upd_cl s a (\<lambda>c. c\<lparr>c_name := (if name = [] then broken else name)\<rparr>))"

definition rule_matches :: "Rule \<Rightarrow> string \<Rightarrow> string \<Rightarrow> string \<Rightarrow> bool" where
  "rule_matches r name class instance \<longleftrightarrow>
     (case r_title r of None \<Rightarrow> True | Some t \<Rightarrow> strstr name t) \<and>
     (case r_class r of None \<Rightarrow> True | Some t \<Rightarrow> strstr class t) \<and>
     (case r_instance r of None \<Rightarrow> True | Some t \<Rightarrow> strstr instance t)"

definition applyrule :: "string \<Rightarrow> string \<Rightarrow> addr \<Rightarrow> Rule \<Rightarrow> State \<Rightarrow> State" where
  "applyrule class instance a r s =
    (if rule_matches r (c_name (cl s a)) class instance then
       (let s1 = upd_cl s a (\<lambda>c. c\<lparr>c_isfloating := r_isfloating r\<rparr>);
            s2 = upd_cl s1 a (\<lambda>c. c\<lparr>c_sizehints := r_sizehints r\<rparr>);
            s3 = upd_cl s2 a (\<lambda>c. c\<lparr>c_tags := c_tags c OR r_tags r\<rparr>)
        in case find (\<lambda>i. m_num (mn s3 i) = r_monitor r) (mons s3) of
             None \<Rightarrow> s3
           | Some i \<Rightarrow> upd_cl s3 a (\<lambda>c. c\<lparr>c_mon := i\<rparr>))
     else s)"

definition applyrules :: "Rule list \<Rightarrow> State \<Rightarrow> addr \<Rightarrow> XClassHint \<Rightarrow> State" where
  "applyrules rs s a ch =
    (let s1 = upd_cl s a (\<lambda>c. c\<lparr>c_tags := 0, c_isfloating := False\<rparr>);
         s2 = upd_cl s1 a (\<lambda>c. c\<lparr>c_sizehints := sizehints_default\<rparr>);
         class = (case res_class ch of Some t \<Rightarrow> t | None \<Rightarrow> broken);
         instance = (case res_name ch of Some t \<Rightarrow> t | None \<Rightarrow> broken);
         s3 = fold (applyrule class instance a) rs s2;
         m = mn s3 (c_mon (cl s3 a))
     in upd_cl s3 a
          (\<lambda>c. c\<lparr>c_tags := (if c_tags c AND TAGMASK \<noteq> 0 then c_tags c AND TAGMASK
                              else m_tagset m (m_seltags m))\<rparr>))"

definition updatesizehints :: "State \<Rightarrow> addr \<Rightarrow> XSizeHints option \<Rightarrow> State" where
  "updatesizehints s a hints =
    (let flag = (\<lambda>f. case hints of None \<Rightarrow> False | Some z \<Rightarrow> f z);
         val = (\<lambda>f. case hints of None \<Rightarrow> 0 | Some z \<Rightarrow> f z);
         s1 = upd_cl s a (\<lambda>c.
                if flag sz_PBaseSize
                  then c\<lparr>c_basew := val sz_base_width, c_baseh := val sz_base_height\<rparr>
                else if flag sz_PMinSize
                  then c\<lparr>c_basew := val sz_min_width, c_baseh := val sz_min_height\<rparr>
                else c\<lparr>c_basew := 0, c_baseh := 0\<rparr>);
         s2 = upd_cl s1 a (\<lambda>c.
                if flag sz_PResizeInc
                  then c\<lparr>c_incw := val sz_width_inc, c_inch := val sz_height_inc\<rparr>
                else c\<lparr>c_incw := 0, c_inch := 0\<rparr>);
         s3 = upd_cl s2 a (\<lambda>c.
                if flag sz_PMaxSize
                  then c\<lparr>c_maxw := val sz_max_width, c_maxh := val sz_max_height\<rparr>
                else c\<lparr>c_maxw := 0, c_maxh := 0\<rparr>);
         s4 = upd_cl s3 a (\<lambda>c.
                if flag sz_PMinSize
                  then c\<lparr>c_minw := val sz_min_width, c_minh := val sz_min_height\<rparr>
                else if flag sz_PBaseSize
                  then c\<lparr>c_minw := val sz_base_width, c_minh := val sz_base_height\<rparr>
                else c\<lparr>c_minw := 0, c_minh := 0\<rparr>);
         s5 = upd_cl s4 a (\<lambda>c.
                if flag sz_PAspect
                  then c\<lparr>c_mina := float_div (val sz_min_aspect_y) (val sz_min_aspect_x),
                         c_maxa := float_div (val sz_max_aspect_x) (val sz_max_aspect_y)\<rparr>
                else c\<lparr>c_maxa := Finite 0, c_mina := Finite 0\<rparr>)
     in upd_cl s5 a (\<lambda>c. c\<lparr>c_isfixed :=
          (c_maxw c \<noteq> 0 \<and> c_minw c \<noteq> 0 \<and> c_maxh c \<noteq> 0 \<and> c_minh c \<noteq> 0
           \<and> c_maxw c = c_minw c \<and> c_maxh c = c_minh c)\<rparr>))"

definition updatewindowtype :: "State \<Rightarrow> addr \<Rightarrow> XWin \<Rightarrow> State" where
  "updatewindowtype s a xw =
    (let s1 = (if xw_state_fullscreen xw then setfullscreen s a True else s)
     in if xw_type_dialog xw then upd_cl s1 a (\<lambda>c. c\<lparr>c_isfloating := True\<rparr>) else s1)"

definition updatewmhints :: "State \<Rightarrow> addr \<Rightarrow> XWMHints option \<Rightarrow> State" where
  "updatewmhints s a hints =
    (case hints of
       None \<Rightarrow> s
     | Some wmh \<Rightarrow>
         (let s1 = (if m_sel (mn s (selmon s)) = Some a \<and> wmh_XUrgencyHint wmh then s
                    else upd_cl s a (\<lambda>c. c\<lparr>c_isurgent := wmh_XUrgencyHint wmh\<rparr>))
          in upd_cl s1 a
               (\<lambda>c. c\<lparr>c_neverfocus := (if wmh_InputHint wmh then \<not> wmh_input wmh else False)\<rparr>)))"

text \<open>
  \<open>manage(w, wa)\<close>. \<open>a\<close> is the address of the structure that \<open>calloc\<close> returns, \<open>rs\<close>
  the rule table and \<open>xw\<close> what the server holds about the window. \<open>None\<close>, the null
  window, is 0. The body is split where the source has its comment \<open>/* geometry */\<close>:
  \<open>manage_finish\<close> is the part from there on, run once the monitor and the tags of the
  new client are set; \<open>trans_win\<close> is the local variable \<open>trans\<close>.
\<close>

definition manage_finish ::
  "State \<Rightarrow> addr \<Rightarrow> Window \<Rightarrow> XWindowAttributes \<Rightarrow> XWin \<Rightarrow> State" where
  "manage_finish s2 a trans_win wa xw =
    (let s3 = upd_cl s2 a (\<lambda>c. c\<lparr>c_x := wa_x wa, c_oldx := wa_x wa, c_y := wa_y wa,
                c_oldy := wa_y wa, c_w := wa_width wa, c_oldw := wa_width wa,
                c_h := wa_height wa, c_oldh := wa_height wa, c_oldbw := wa_border_width wa\<rparr>);
         m = mn s3 (c_mon (cl s3 a));
         s4 = upd_cl s3 a (\<lambda>c. if c_x c + c_w c + 2 * borderpx > m_mx m + m_mw m
                then c\<lparr>c_x := m_mx m + m_mw m - c_w c - 2 * borderpx\<rparr> else c);
         s5 = upd_cl s4 a (\<lambda>c. if c_y c + c_h c + 2 * borderpx > m_my m + m_mh m
                then c\<lparr>c_y := m_my m + m_mh m - c_h c - 2 * borderpx\<rparr> else c);
         s6 = upd_cl s5 a (\<lambda>c. c\<lparr>c_x := max (c_x c) (m_mx m)\<rparr>);
         s7 = upd_cl s6 a
                (\<lambda>c. c\<lparr>c_y := max (c_y c) (m_my m + (if m_topbar m then bh s6 else 0))\<rparr>);
         s8 = (if wa_x wa = 0 \<and> wa_y wa = 0
               then upd_cl s7 a (\<lambda>c. c\<lparr>c_x := c_x c + gappx s7, c_y := c_y c + gappx s7\<rparr>)
               else s7);
         s9 = upd_cl s8 a (\<lambda>c. c\<lparr>c_bw := borderpx\<rparr>);
         s10 = updatewindowtype s9 a xw;
         s11 = updatesizehints s10 a (xw_normal_hints xw);
         s12 = updatewmhints s11 a (xw_wm_hints xw);
         s13 = (if \<not> c_isfloating (cl s12 a)
                then upd_cl s12 a (\<lambda>c. c\<lparr>c_oldstate := (trans_win \<noteq> 0 \<or> c_isfixed c),
                                           c_isfloating := (trans_win \<noteq> 0 \<or> c_isfixed c)\<rparr>)
                else s12);
         s14 = attach s13 a;
         s15 = attachstack s14 a;
         s16 = (if c_mon (cl s15 a) = selmon s15
                then unfocus s15 (m_sel (mn s15 (selmon s15))) False else s15);
         s17 = upd_mn s16 (c_mon (cl s16 a)) (\<lambda>m. m\<lparr>m_sel := Some a\<rparr>);
         s18 = arrange s17 (Some (c_mon (cl s17 a)))
     in focus s18 None)"

definition manage ::
  "Rule list \<Rightarrow> State \<Rightarrow> addr \<Rightarrow> Window \<Rightarrow> XWindowAttributes \<Rightarrow> XWin \<Rightarrow> State" where
  "manage rs s a w wa xw =
    (let s0 = upd_cl s a (\<lambda>c. zero_client\<lparr>c_win := w\<rparr>);
         s1 = updatetitle s0 a xw;
         trans_win = (case xw_transient_for xw of None \<Rightarrow> 0 | Some tr \<Rightarrow> tr);
         t = (case xw_transient_for xw of None \<Rightarrow> None | Some tr \<Rightarrow> wintoclient s1 tr);
         s2 = (case t of
                 Some ta \<Rightarrow>
                   (let sa = upd_cl s1 a (\<lambda>c. c\<lparr>c_mon := c_mon (cl s1 ta)\<rparr>)
                    in upd_cl sa a (\<lambda>c. c\<lparr>c_tags := c_tags (cl sa ta)\<rparr>))
               | None \<Rightarrow>
                   applyrules rs (upd_cl s1 a (\<lambda>c. c\<lparr>c_mon := selmon s1\<rparr>)) a
                     (xw_class_hint xw))
     in manage_finish s2 a trans_win wa xw)"

text \<open>\<open>unmanage\<close>; \<open>free(c)\<close> leaves the modelled memory unchanged.\<close>

definition unmanage :: "State \<Rightarrow> addr \<Rightarrow> bool \<Rightarrow> State" where
  "unmanage s a destroyed =
    (let i = c_mon (cl s a);
         s1 = detach s a;
         s2 = detachstack s1 a;
         s3 = focus s2 None
     in arrange s3 (Some i))"

section \<open>Client messages\<close>

datatype Atom = NetWMState | NetWMFullscreen | NetActiveWindow | OtherAtom nat

text \<open>
  The fields of an \<open>XClientMessageEvent\<close> that the handler reads: \<open>data.l[0]\<close> as a
  number, \<open>data.l[1]\<close> and \<open>data.l[2]\<close> as the atoms they are compared with.
\<close>

record XClientMessageEvent =
  cme_window :: Window
  cme_message_type :: Atom
  cme_l0 :: int
  cme_l1 :: Atom
  cme_l2 :: Atom

definition clientmessage :: "State \<Rightarrow> XClientMessageEvent \<Rightarrow> State" where
  "clientmessage s cme =
    (case wintoclient s (cme_window cme) of
       None \<Rightarrow> s
     | Some c \<Rightarrow>
         if cme_message_type cme = NetWMState then
           (if cme_l1 cme = NetWMFullscreen \<or> cme_l2 cme = NetWMFullscreen
            then setfullscreen s c
                   (cme_l0 cme = 1 \<or> (cme_l0 cme = 2 \<and> \<not> c_isfullscreen (cl s c)))
            else s)
         else if cme_message_type cme = NetActiveWindow then
           (let s1 = (if \<not> ISVISIBLE s c then
                        (let i = c_mon (cl s c);
                             sa = upd_mn s i (\<lambda>m. m\<lparr>m_seltags := m_seltags m XOR 1\<rparr>)
                         in upd_mn sa i
                              (\<lambda>m. m\<lparr>m_tagset := (m_tagset m)(m_seltags m := c_tags (cl sa c))\<rparr>))
                      else s)
            in pop s1 c)
         else s)"

section \<open>Monitors\<close>

definition INTERSECT :: "int \<Rightarrow> int \<Rightarrow> int \<Rightarrow> int \<Rightarrow> Monitor \<Rightarrow> int" where
  "INTERSECT x y w h m =
     max 0 (min (x + w) (m_wx m + m_ww m) - max x (m_wx m))
     * max 0 (min (y + h) (m_wy m + m_wh m) - max y (m_wy m))"

definition recttomon :: "State \<Rightarrow> int \<Rightarrow> int \<Rightarrow> int \<Rightarrow> int \<Rightarrow> addr" where
  "recttomon s x y w h =
     snd (fold (\<lambda>i (area, r). let a = INTERSECT x y w h (mn s i)
                               in if a > area then (a, i) else (area, r))
            (mons s) (0, selmon s))"

text \<open>
  \<open>wintomon(w)\<close>; \<open>ptr\<close> is what \<open>getrootptr\<close> returns when it is asked (\<open>None\<close> when
  it fails).
\<close>

definition wintomon :: "State \<Rightarrow> Window \<Rightarrow> (int \<times> int) option \<Rightarrow> addr" where
  "wintomon s w ptr =
    (if w = root s \<and> ptr \<noteq> None then (case the ptr of (x, y) \<Rightarrow> recttomon s x y 1 1)
     else case find (\<lambda>i. m_barwin (mn s i) = w) (mons s) of
            Some i \<Rightarrow> i
          | None \<Rightarrow> (case wintoclient s w of Some c \<Rightarrow> c_mon (cl s c) | None \<Rightarrow> selmon s))"

definition zero_monitor :: Monitor where
  "zero_monitor =
    \<lparr>m_ltsymbol = [], m_mfact = 0, m_nmaster = 0, m_nmaster_dynamic_max = 0,
     m_num = 0, m_by = 0, m_mx = 0, m_my = 0, m_mw = 0, m_mh = 0,
     m_wx = 0, m_wy = 0, m_ww = 0, m_wh = 0, m_lmx = 0, m_lmy = 0,
     m_seltags = 0, m_tagset = (\<lambda>k. 0), m_showbar = False, m_topbar = False,
     m_clients = [], m_sel = None, m_stack = [], m_barwin = 0,
     m_lt = \<lparr>l_symbol = [], l_arrange = None\<rparr>\<rparr>"

text \<open>The structure that \<open>createmon\<close> returns.\<close>

definition createmon :: Monitor where
  "createmon =
     zero_monitor\<lparr>m_tagset := (\<lambda>k. 0)(0 := startuptags, 1 := startuptags),
       m_mfact := mfact, m_nmaster := nmaster, m_nmaster_dynamic_max := nmaster_dynamic_max,
       m_showbar := showbar, m_topbar := topbar, m_lt := hd layouts,
       m_ltsymbol := take 16 (l_symbol (hd layouts))\<rparr>"

definition updatebarpos :: "State \<Rightarrow> addr \<Rightarrow> State" where
  "updatebarpos s i =
    (let s1 = upd_mn s i (\<lambda>m. m\<lparr>m_wy := m_my m\<rparr>);
         s2 = upd_mn s1 i (\<lambda>m. m\<lparr>m_wh := m_mh m\<rparr>)
     in if m_showbar (mn s2 i) then
          (let s3 = upd_mn s2 i (\<lambda>m. m\<lparr>m_wh := m_wh m - bh s2\<rparr>);
               s4 = upd_mn s3 i (\<lambda>m. m\<lparr>m_by := (if m_topbar m then m_wy m else m_wy m + m_wh m)\<rparr>)
           in upd_mn s4 i (\<lambda>m. m\<lparr>m_wy := (if m_topbar m then m_wy m + bh s4 else m_wy m)\<rparr>))
        else upd_mn s2 i (\<lambda>m. m\<lparr>m_by := - bh s2\<rparr>))"

record XineramaScreenInfo =
  x_org :: int
  y_org :: int
  width :: int
  height :: int

definition isuniquegeom :: "XineramaScreenInfo list \<Rightarrow> XineramaScreenInfo \<Rightarrow> bool" where
  "isuniquegeom unique info \<longleftrightarrow>
     \<not> (\<exists>u \<in> set unique. x_org u = x_org info \<and> y_org u = y_org info
                           \<and> width u = width info \<and> height u = height info)"

text \<open>
  The pieces of \<open>updategeom\<close>. \<open>newmons k\<close> appends \<open>k\<close> monitors; the \<open>j\<close>-th structure
  that \<open>calloc\<close> returns is at address \<open>fresh j\<close>.
\<close>

fun newmons :: "(nat \<Rightarrow> addr) \<Rightarrow> nat \<Rightarrow> State \<Rightarrow> State" where
  "newmons fresh 0 s = s"
| "newmons fresh (Suc k) s =
     (let s1 = newmons fresh k s
      in s1\<lparr>mn := (mn s1)(fresh k := createmon), mons := mons s1 @ [fresh k]\<rparr>)"

text \<open>
  The loop over the monitors and the unique geometries: \<open>n\<close> is the number of monitors
  there were, \<open>i\<close> the index of the first monitor of the list.
\<close>

fun setgeoms ::
  "nat \<Rightarrow> nat \<Rightarrow> addr list \<Rightarrow> XineramaScreenInfo list \<Rightarrow> bool \<times> State \<Rightarrow> bool \<times> State" where
  "setgeoms n i (m # ms) (u # us) (dirty, s) =
     (if i \<ge> n \<or> x_org u \<noteq> m_mx (mn s m) \<or> y_org u \<noteq> m_my (mn s m)
           \<or> width u \<noteq> m_mw (mn s m) \<or> height u \<noteq> m_mh (mn s m)
      then
        (let s1 = upd_mn s m (\<lambda>x. x\<lparr>m_num := int i\<rparr>);
             s2 = upd_mn s1 m (\<lambda>x. x\<lparr>m_wx := x_org u, m_mx := x_org u\<rparr>);
             s3 = upd_mn s2 m (\<lambda>x. x\<lparr>m_wy := y_org u, m_my := y_org u\<rparr>);
             s4 = upd_mn s3 m (\<lambda>x. x\<lparr>m_ww := width u, m_mw := width u\<rparr>);
             s5 = upd_mn s4 m (\<lambda>x. x\<lparr>m_wh := height u, m_mh := height u\<rparr>);
             s6 = upd_mn s5 m (\<lambda>x. x\<lparr>m_lmx := m_wx x + trunc (0.5 * real_of_int (m_ww x))\<rparr>);
             s7 = upd_mn s6 m (\<lambda>x. x\<lparr>m_lmy := m_wy x + trunc (0.5 * real_of_int (m_wh x))\<rparr>)
         in setgeoms n (Suc i) ms us (True, updatebarpos s7 m))
      else setgeoms n (Suc i) ms us (dirty, s))"
| "setgeoms n i ms us ds = ds"

text \<open>
  Draining the clients of a monitor \<open>m\<close> that is about to be removed into the first
  monitor. The C loop \<open>while(m->clients)\<close> reads the head of the list again in each
  round; the recursion runs over the list as it was, which is the same as long as
  \<open>m\<close> is not the first monitor (the caller checks this).
\<close>

fun drain :: "addr \<Rightarrow> addr list \<Rightarrow> State \<Rightarrow> State" where
  "drain m [] s = s"
| "drain m (c # cs) s =
     (let s1 = upd_mn s m (\<lambda>x. x\<lparr>m_clients := cs\<rparr>);
          s2 = detachstack s1 c;
          s3 = upd_cl s2 c (\<lambda>x. x\<lparr>c_mon := hd (mons s2)\<rparr>);
          s4 = attach s3 c;
          s5 = attachstack s4 c
      in drain m cs s5)"

text \<open>\<open>cleanupmon\<close> unlinks the monitor from the chain; \<open>free\<close> leaves the memory.\<close>

definition cleanupmon :: "State \<Rightarrow> addr \<Rightarrow> State" where
  "cleanupmon s m = s\<lparr>mons := remove1 m (mons s)\<rparr>"

text \<open>
  One round of the loop that removes the excess monitors, with the \<open>dirty\<close> flag. The
  result is \<open>None\<close> when the round does not end or leaves no monitor: the monitor
  to remove is the first one, so that a client drained from it is attached to it again
  and the \<open>while\<close> loop runs forever, or, when it has no client, the chain becomes
  empty and \<open>selmon\<close> is \<open>NULL\<close> afterwards.
\<close>

definition removelast :: "bool \<times> State \<Rightarrow> (bool \<times> State) option" where
  "removelast ds =
    (case ds of (dirty, s) \<Rightarrow>
       (let m = last (mons s) in
        if mons s = [] \<or> m = hd (mons s) then None
        else
          (let cs = m_clients (mn s m);
               s1 = drain m cs s;
               s2 = (if m = selmon s1 then s1\<lparr>selmon := hd (mons s1)\<rparr> else s1)
           in Some (dirty \<or> cs \<noteq> [], cleanupmon s2 m))))"

fun removemons :: "nat \<Rightarrow> bool \<times> State \<Rightarrow> (bool \<times> State) option" where
  "removemons 0 ds = Some ds"
| "removemons (Suc k) ds =
     (case removelast ds of None \<Rightarrow> None | Some ds' \<Rightarrow> removemons k ds')"

text \<open>
  \<open>updategeom\<close>. \<open>xin\<close> is \<open>None\<close> when Xinerama is not active and the list that
  \<open>XineramaQueryScreens\<close> returns otherwise; \<open>ptr\<close> is the pointer position for
  \<open>wintomon(root)\<close>. The result is the returned \<open>dirty\<close> flag and the new state, or
  \<open>None\<close> when the call does not return or leaves the program without a monitor (see
  \<open>removelast\<close>; also when Xinerama reports no screen at all).
\<close>

definition updategeom ::
  "State \<Rightarrow> XineramaScreenInfo list option \<Rightarrow> (nat \<Rightarrow> addr) \<Rightarrow> (int \<times> int) option
     \<Rightarrow> (bool \<times> State) option" where
  "updategeom s xin fresh ptr =
    (let s0 = s\<lparr>prevmon := None\<rparr>;
         r = (case xin of
                Some info \<Rightarrow>
                  (let n = length (mons s0);
                       unique = fold (\<lambda>x u. if isuniquegeom u x then u @ [x] else u) info [];
                       nn = length unique
                   in if nn = 0 then None
                      else if n \<le> nn then
                        (let s1 = newmons fresh (nn - n) s0
                         in Some (setgeoms n 0 (mons s1) unique (False, s1)))
                      else removemons (n - nn) (False, s0))
              | None \<Rightarrow>
                  (let s1 = (if mons s0 = [] then newmons fresh 1 s0 else s0);
                       m = hd (mons s1)
                   in if m_mw (mn s1 m) \<noteq> sw s1 \<or> m_mh (mn s1 m) \<noteq> sh s1 then
                        (let s2 = upd_mn s1 m (\<lambda>x. x\<lparr>m_ww := sw s1, m_mw := sw s1\<rparr>);
                             s3 = upd_mn s2 m (\<lambda>x. x\<lparr>m_wh := sh s2, m_mh := sh s2\<rparr>)
                         in Some (True, updatebarpos s3 m))
                      else Some (False, s1)))
     in case r of
          None \<Rightarrow> None
        | Some (dirty, s4) \<Rightarrow>
            Some (dirty,
                  if dirty
                  then (let s5 = s4\<lparr>selmon := hd (mons s4)\<rparr>
                        in s5\<lparr>selmon := wintomon s5 (root s5) ptr\<rparr>)
                  else s4))"

text \<open>
  \<open>configurenotify\<close> for the root window; \<open>ev_width\<close> and \<open>ev_height\<close> are the new size
  of the screen. When \<open>updategeom\<close> does not return, neither does the handler.
\<close>

definition configurenotify ::
  "State \<Rightarrow> Window \<Rightarrow> int \<Rightarrow> int \<Rightarrow> XineramaScreenInfo list option \<Rightarrow> (nat \<Rightarrow> addr)
     \<Rightarrow> (int \<times> int) option \<Rightarrow> State option" where
  "configurenotify s ev_window ev_width ev_height xin fresh ptr =
    (if ev_window = root s then
       (let dirty = (sw s \<noteq> ev_width \<or> sh s \<noteq> ev_height);
            s1 = s\<lparr>sw := ev_width, sh := ev_height\<rparr>
        in case updategeom s1 xin fresh ptr of
             None \<Rightarrow> None
           | Some (d, s2) \<Rightarrow>
               Some (if d \<or> dirty then arrange (focus s2 None) None else s2))
     else Some s)"

section \<open>Moving the focus between clients and monitors\<close>

text \<open>
  The loop of \<open>dirtomon\<close> for \<open>dir \<noteq> 0\<close>: the accumulator is
  \<open>(min_d_pos, min_d_neg, nearest, faraway)\<close>.
\<close>

definition dirtomon_step ::
  "State \<Rightarrow> int \<Rightarrow> addr \<Rightarrow> int \<times> int \<times> addr \<times> addr \<Rightarrow> int \<times> int \<times> addr \<times> addr" where
  "dirtomon_step s dir i acc =
    (case acc of (min_d_pos, min_d_neg, nearest, faraway) \<Rightarrow>
       (let d0 = (if dir > 1 \<or> dir < - 1 then m_my (mn s i) - m_my (mn s (selmon s))
                  else m_mx (mn s i) - m_mx (mn s (selmon s)));
            d = d0 * dir
        in if d > 0 then
             (if min_d_pos = 0 \<or> d < min_d_pos then (d, min_d_neg, i, faraway) else acc)
           else if d < 0 then
             (if min_d_neg = 0 \<or> d < min_d_neg then (min_d_pos, d, nearest, i) else acc)
           else acc))"

definition dirtomon_dir :: "State \<Rightarrow> int \<Rightarrow> addr" where
  "dirtomon_dir s dir =
    (case fold (dirtomon_step s dir) (mons s) (0, 0, selmon s, selmon s) of
       (min_d_pos, min_d_neg, nearest, faraway) \<Rightarrow>
         if nearest = selmon s then faraway else nearest)"

definition dirtomon :: "State \<Rightarrow> int \<Rightarrow> addr" where
  "dirtomon s dir =
    (if dir \<noteq> 0 then dirtomon_dir s dir
     else case prevmon s of Some m \<Rightarrow> m | None \<Rightarrow> dirtomon_dir s 1)"

definition focusmon :: "State \<Rightarrow> int \<Rightarrow> State" where
  "focusmon s dir =
    (if length (mons s) \<le> 1 then s
     else
       (let m = dirtomon s dir in
        if m = selmon s then s
        else
          (let s1 = unfocus s (m_sel (mn s (selmon s))) False;
               s2 = s1\<lparr>prevmon := Some (selmon s1)\<rparr>;
               s3 = s2\<lparr>selmon := m\<rparr>
           in focus s3 None)))"

definition tagmon :: "State \<Rightarrow> int \<Rightarrow> State" where
  "tagmon s dir =
    (case m_sel (mn s (selmon s)) of
       None \<Rightarrow> s
     | Some a \<Rightarrow> if length (mons s) \<le> 1 then s else sendmon s a (dirtomon s dir))"

text \<open>
  \<open>focusstack\<close>: \<open>before\<close> are the clients of the selected monitor in front of the
  selected client, \<open>from_sel\<close> the selected client and those behind it. (With a selected
  client that is not in the list the C loop for \<open>dir \<le> 0\<close> runs off the list.)
\<close>

definition focusstack :: "State \<Rightarrow> int \<Rightarrow> State" where
  "focusstack s dir =
    (case m_sel (mn s (selmon s)) of
       None \<Rightarrow> s
     | Some sel \<Rightarrow>
         (let cs = m_clients (mn s (selmon s));
              before = takeWhile (\<lambda>a. a \<noteq> sel) cs;
              from_sel = dropWhile (\<lambda>a. a \<noteq> sel) cs;
              c = (if dir > 0 then
                     (case find (ISVISIBLE s) (tl from_sel) of
                        Some a \<Rightarrow> Some a
                      | None \<Rightarrow> find (ISVISIBLE s) cs)
                   else
                     (case find (ISVISIBLE s) (rev before) of
                        Some a \<Rightarrow> Some a
                      | None \<Rightarrow> find (ISVISIBLE s) (rev from_sel)))
          in case c of
               None \<Rightarrow> s
             | Some a \<Rightarrow> restack (focus s (Some a)) (selmon (focus s (Some a)))))"

section \<open>Startup\<close>

text \<open>
  The state in which \<open>setup\<close> finds the global variables (no monitor, \<open>selmon\<close> null)
  once it has set the screen size, the bar height and the root window, and the state
  after it: \<open>updategeom\<close> followed by \<open>focus(NULL)\<close>.
\<close>

definition startup_state :: "int \<Rightarrow> int \<Rightarrow> int \<Rightarrow> Window \<Rightarrow> State" where
  "startup_state scr_w scr_h bar_h rootwin =
    \<lparr>cl = (\<lambda>a. zero_client), mn = (\<lambda>i. zero_monitor), mons = [], selmon = 0,
     prevmon = None, prevclient = None, gappx = uselessgap,
     sw = scr_w, sh = scr_h, bh = bar_h, root = rootwin\<rparr>"

definition setup_dwm ::
  "int \<Rightarrow> int \<Rightarrow> int \<Rightarrow> Window \<Rightarrow> XineramaScreenInfo list option \<Rightarrow> (nat \<Rightarrow> addr)
     \<Rightarrow> (int \<times> int) option \<Rightarrow> State option" where
  "setup_dwm scr_w scr_h bar_h rootwin xin fresh ptr =
    (case updategeom (startup_state scr_w scr_h bar_h rootwin) xin fresh ptr of
       None \<Rightarrow> None
     | Some (d, s) \<Rightarrow> Some (focus s None))"

section \<open>Predicates used in the statements\<close>

text \<open>
  The size hints of \<open>c\<close> cannot make a request smaller: either the ICCCM block of
  \<open>applysizehints\<close> is not run for \<open>c\<close> (a tiled client under an arranging layout
  with \<open>sizehints\<close> off), or \<open>c\<close> has no resize increments, no maximum size and
  no aspect limits.
\<close>

definition hints_cannot_shrink :: "State \<Rightarrow> Client \<Rightarrow> bool" where
  "hints_cannot_shrink s c \<longleftrightarrow>
     (\<not> c_sizehints c \<and> \<not> c_isfloating c \<and> l_arrange (m_lt (mn s (c_mon c))) \<noteq> None) \<or>
     (c_incw c = 0 \<and> c_inch c = 0 \<and> c_maxw c = 0 \<and> c_maxh c = 0 \<and>
      \<not> (float_less (Finite 0) (c_mina c) \<and> float_less (Finite 0) (c_maxa c)))"

text \<open>The area the position is clamped against is not empty.\<close>

definition area_positive :: "State \<Rightarrow> Client \<Rightarrow> bool \<Rightarrow> bool" where
  "area_positive s c interact \<longleftrightarrow>
     (if interact then sw s > 0 \<and> sh s \<ge> 0
      else m_ww (mn s (c_mon c)) > 0 \<and> m_wh (mn s (c_mon c)) > 0)"

text \<open>
  The arithmetic of \<open>applysizehints\<close> does not overflow: the requested rectangle lies
  within \<open>2 ^ 29\<close> of the origin and is at most that large, and the geometry and the
  base and minimum size of the client, the work area of its monitor, the screen size
  and the bar height are at most \<open>2 ^ 26\<close> in absolute value.
\<close>

definition no_overflow :: "State \<Rightarrow> Client \<Rightarrow> int \<times> int \<times> int \<times> int \<Rightarrow> bool" where
  "no_overflow s c r \<longleftrightarrow>
     (case r of (x, y, w, h) \<Rightarrow>
        \<bar>x\<bar> \<le> 2 ^ 29 \<and> \<bar>y\<bar> \<le> 2 ^ 29 \<and> \<bar>w\<bar> \<le> 2 ^ 29 \<and> \<bar>h\<bar> \<le> 2 ^ 29) \<and>
     list_all (\<lambda>v. \<bar>v\<bar> \<le> 2 ^ 26)
       [c_w c, c_h c, c_bw c, c_basew c, c_baseh c, c_minw c, c_minh c, sw s, sh s, bh s,
        m_wx (mn s (c_mon c)), m_wy (mn s (c_mon c)),
        m_ww (mn s (c_mon c)), m_wh (mn s (c_mon c))]"

text \<open>The tag-set a monitor shows: \<open>m->tagset[m->seltags]\<close>.\<close>

definition active_tagset :: "State \<Rightarrow> addr \<Rightarrow> tagmask" where
  "active_tagset s i = m_tagset (mn s i) (m_seltags (mn s i))"

text \<open>Every client on the focus stack of monitor \<open>i\<close> has \<open>i\<close> as its \<open>mon\<close>.\<close>

definition stack_on_monitor :: "State \<Rightarrow> addr \<Rightarrow> bool" where
  "stack_on_monitor s i \<longleftrightarrow> (\<forall>a \<in> set (m_stack (mn s i)). c_mon (cl s a) = i)"

text \<open>The geometry of a client: \<open>(x, y, w, h)\<close>.\<close>

definition geom :: "Client \<Rightarrow> int \<times> int \<times> int \<times> int" where
  "geom c = (c_x c, c_y c, c_w c, c_h c)"

text \<open>
  \<open>arrange\<close> on the client's monitor does not move the client: it is hidden, or it is
  floating (or the layout is the floating one) and its geometry already satisfies its
  size hints, so that \<open>applysizehints\<close> returns it unchanged. A visible tiled client
  under an arranging layout is placed by the layout.
\<close>

definition stays_put :: "State \<Rightarrow> addr \<Rightarrow> bool" where
  "stays_put s a \<longleftrightarrow>
     \<not> ISVISIBLE s a \<or>
     ((c_isfloating (cl s a) \<or> l_arrange (m_lt (mn s (c_mon (cl s a)))) = None) \<and>
      snd (applysizehints s (cl s a) (geom (cl s a)) False) = geom (cl s a))"

text \<open>
  The selected client of every monitor is visible there:
  \<open>m->sel->tags & m->tagset[m->seltags]\<close> is not zero.
\<close>

definition sel_visible :: "State \<Rightarrow> bool" where
  "sel_visible s \<longleftrightarrow>
     list_all (\<lambda>i. case m_sel (mn s i) of
                      None \<Rightarrow> True
                    | Some a \<Rightarrow> c_tags (cl s a) AND active_tagset s i \<noteq> 0) (mons s)"

text \<open>The clients that \<open>wintoclient\<close> can find: those in the client list of a monitor.\<close>

definition managed :: "State \<Rightarrow> addr set" where
  "managed s = (\<Union>i \<in> set (mons s). set (m_clients (mn s i)))"

section \<open>Projections of the state\<close>

text \<open>
  \<open>skeleton\<close> forgets what \<open>arrange\<close> may write: the geometry of the clients and the
  layout symbol of the monitors. \<open>tagview\<close> keeps what visibility depends on.
\<close>

definition strip_geometry :: "Client \<Rightarrow> Client" where
  "strip_geometry c =
     c\<lparr>c_x := 0, c_y := 0, c_w := 0, c_h := 0, c_oldx := 0, c_oldy := 0, c_oldw := 0, c_oldh := 0\<rparr>"

definition strip_symbol :: "Monitor \<Rightarrow> Monitor" where
  "strip_symbol m = m\<lparr>m_ltsymbol := []\<rparr>"

definition skeleton :: "State \<Rightarrow> State" where
  "skeleton s = s\<lparr>cl := (\<lambda>a. strip_geometry (cl s a)), mn := (\<lambda>i. strip_symbol (mn s i))\<rparr>"

definition tagview ::
  "State \<Rightarrow> (addr \<Rightarrow> tagmask) \<times> (addr \<Rightarrow> addr) \<times> (addr \<Rightarrow> 32 word \<Rightarrow> tagmask) \<times> (addr \<Rightarrow> 32 word)" where
  "tagview s =
     (\<lambda>a. c_tags (cl s a), \<lambda>a. c_mon (cl s a), \<lambda>i. m_tagset (mn s i), \<lambda>i. m_seltags (mn s i))"

text \<open>
  \<open>unsaved\<close> forgets the fields in which \<open>resizeclient\<close> and \<open>setfullscreen\<close> save
  the previous geometry, border width and floating flag of a client.
\<close>

definition unsaved_client :: "Client \<Rightarrow> Client" where
  "unsaved_client c =
     c\<lparr>c_oldx := 0, c_oldy := 0, c_oldw := 0, c_oldh := 0, c_oldstate := False, c_oldbw := 0\<rparr>"

definition unsaved :: "State \<Rightarrow> State" where
  "unsaved s = s\<lparr>cl := (\<lambda>a. unsaved_client (cl s a))\<rparr>"

text \<open>
  \<open>restored\<close> is what leaving fullscreen writes back into the client; \<open>hint_fields\<close>
  are the fields of a client that \<open>applysizehints\<close> reads.
\<close>

definition restored :: "Client \<Rightarrow> Client" where
  "restored c = c\<lparr>c_isfullscreen := False, c_isfloating := c_oldstate c, c_bw := c_oldbw c,
        c_x := c_oldx c, c_y := c_oldy c, c_w := c_oldw c, c_h := c_oldh c\<rparr>"


definition hint_fields ::
  "Client \<Rightarrow> (int \<times> int \<times> int \<times> int) \<times> (int \<times> addr \<times> bool \<times> bool) \<times>
     (int \<times> int \<times> int \<times> int) \<times> (cfloat \<times> cfloat) \<times> (int \<times> int \<times> int \<times> int)" where
  "hint_fields c = ((c_x c, c_y c, c_w c, c_h c), (c_bw c, c_mon c, c_sizehints c, c_isfloating c),
     (c_basew c, c_baseh c, c_minw c, c_minh c), (c_mina c, c_maxa c),
     (c_incw c, c_inch c, c_maxw c, c_maxh c))"


section \<open>Concrete inputs\<close>

text \<open>
  One 1920x1080 monitor with the bar on top (bar height 19) showing tag 1, and a client
  on it at (100,100) of size 800x600 with border width 2.
\<close>

definition ex_mon :: Monitor where
  "ex_mon =
    \<lparr>m_ltsymbol = ''[]='', m_mfact = 0.55, m_nmaster = 0, m_nmaster_dynamic_max = 4,
     m_num = 0, m_by = 0, m_mx = 0, m_my = 0, m_mw = 1920, m_mh = 1080,
     m_wx = 0, m_wy = 19, m_ww = 1920, m_wh = 1061, m_lmx = 960, m_lmy = 540,
     m_seltags = 0, m_tagset = (\<lambda>i. 1), m_showbar = True, m_topbar = True,
     m_clients = [], m_sel = None, m_stack = [], m_barwin = 1,
     m_lt = \<lparr>l_symbol = ''[]='', l_arrange = Some tile_fn\<rparr>\<rparr>"

definition ex_client :: Client where
  "ex_client =
    \<lparr>c_name = ''xterm'', c_mina = Finite 0, c_maxa = Finite 0, c_x = 100, c_y = 100, c_w = 800, c_h = 600,
     c_oldx = 100, c_oldy = 100, c_oldw = 800, c_oldh = 600,
     c_basew = 0, c_baseh = 0, c_incw = 0, c_inch = 0, c_maxw = 0, c_maxh = 0,
     c_minw = 0, c_minh = 0, c_bw = 2, c_oldbw = 0, c_tags = 1,
     c_isfixed = False, c_isfloating = False, c_isurgent = False, c_neverfocus = False,
     c_oldstate = False, c_isfullscreen = False, c_sizehints = True, c_mon = 1, c_win = 7\<rparr>"

definition ex_state :: State where
  "ex_state =
    \<lparr>cl = (\<lambda>a. ex_client), mn = (\<lambda>a. ex_mon), mons = [1], selmon = 1,
     prevmon = None, prevclient = None, gappx = 5, sw = 1920, sh = 1080, bh = 19, root = 2\<rparr>"

text \<open>
  The same monitor managing that client (at address 7) as its only and selected client,
  tiled; and the variants where the client is floating, or carries tag 2 and is hidden.
\<close>

definition ex_state1 :: State where
  "ex_state1 =
     ex_state\<lparr>mn := (\<lambda>i. ex_mon\<lparr>m_clients := [7], m_stack := [7], m_sel := Some 7\<rparr>)\<rparr>"

definition ex_state1_floating :: State where
  "ex_state1_floating = ex_state1\<lparr>cl := (\<lambda>a. ex_client\<lparr>c_isfloating := True\<rparr>)\<rparr>"

definition ex_state1_hidden :: State where
  "ex_state1_hidden = ex_state1\<lparr>cl := (\<lambda>a. ex_client\<lparr>c_tags := 2\<rparr>)\<rparr>"

text \<open>A client that asks for widths in steps of 10 up to a maximum of 95.\<close>

definition ex_client_inc :: Client where
  "ex_client_inc = ex_client\<lparr>c_incw := 10, c_maxw := 95\<rparr>"

text \<open>
  Two screens of 1920x1080 side by side, a plain window as the X server reports it, and
  the state \<open>ex_two_mon\<close> with one monitor per screen (at addresses 1 and 2): window 100
  has been managed on the left monitor under tag 1 (structure at address 7, tiled by the
  first \<open>arrange\<close>), the left monitor has then been switched to tag 2 with \<open>view\<close>, which
  hides the client and leaves the monitor without selection, and the right monitor has
  been selected with \<open>focusmon\<close>.
\<close>

definition ex_screens :: "XineramaScreenInfo list" where
  "ex_screens = [\<lparr>x_org = 0, y_org = 0, width = 1920, height = 1080\<rparr>,
                 \<lparr>x_org = 1920, y_org = 0, width = 1920, height = 1080\<rparr>]"

definition ex_wa :: XWindowAttributes where
  "ex_wa = \<lparr>wa_x = 100, wa_y = 100, wa_width = 800, wa_height = 600, wa_border_width = 1,
            wa_override_redirect = False\<rparr>"

definition ex_xwin :: XWin where
  "ex_xwin = \<lparr>xw_net_wm_name = None, xw_wm_name = Some ''xterm'', xw_transient_for = None,
              xw_class_hint = \<lparr>res_name = Some ''xterm'', res_class = Some ''XTerm''\<rparr>,
              xw_normal_hints = None, xw_wm_hints = None,
              xw_state_fullscreen = False, xw_type_dialog = False\<rparr>"

definition ex_two_mon :: State where
  "ex_two_mon =
    \<lparr>cl = (\<lambda>a. ex_client\<lparr>c_x := 5, c_y := 24, c_w := 1900, c_h := 1041, c_bw := 5,
                         c_oldbw := 1, c_win := 100\<rparr>),
     mn = (\<lambda>i. if i = 1
             then ex_mon\<lparr>m_seltags := 1, m_tagset := (\<lambda>k. if k = 1 then 2 else 1),
                    m_clients := [7], m_stack := [7], m_barwin := 0\<rparr>
             else ex_mon\<lparr>m_num := 1, m_mx := 1920, m_wx := 1920, m_lmx := 2880,
                    m_barwin := 0\<rparr>),
     mons = [1, 2], selmon = 2, prevmon = Some 1, prevclient = Some 7,
     gappx = 5, sw = 3840, sh = 1080, bh = 19, root = 2\<rparr>"

section \<open>Reachable states\<close>

text \<open>
  \<open>links\<close> is the chain of monitors with the selected and the previous monitor and, for
  each monitor, its client list, its focus stack and its selected client.
\<close>

definition links ::
  "State \<Rightarrow> addr list \<times> addr \<times> addr option \<times> (addr \<Rightarrow> addr list \<times> addr list \<times> addr option)" where
  "links s =
     (mons s, selmon s, prevmon s, \<lambda>i. (m_clients (mn s i), m_stack (mn s i), m_sel (mn s i)))"

text \<open>A tag mask that is not empty and has no bit outside \<open>TAGMASK\<close>.\<close>

definition mask_ok :: "tagmask \<Rightarrow> bool" where
  "mask_ok t \<longleftrightarrow> t \<noteq> 0 \<and> t AND TAGMASK = t"

text \<open>
  The lists of monitor \<open>i\<close>: client list and focus stack hold the same clients, each
  once, every one of them has \<open>i\<close> as its monitor, and the selected client, if there is
  one, is among them.
\<close>

definition mon_ok :: "State \<Rightarrow> addr \<Rightarrow> bool" where
  "mon_ok s i \<longleftrightarrow>
     distinct (m_clients (mn s i)) \<and> distinct (m_stack (mn s i)) \<and>
     set (m_stack (mn s i)) = set (m_clients (mn s i)) \<and>
     (\<forall>a \<in> set (m_clients (mn s i)). c_mon (cl s a) = i) \<and>
     (case m_sel (mn s i) of None \<Rightarrow> True | Some a \<Rightarrow> a \<in> set (m_clients (mn s i)))"

definition lists_ok :: "State \<Rightarrow> bool" where
  "lists_ok s \<longleftrightarrow>
     mons s \<noteq> [] \<and> distinct (mons s) \<and> selmon s \<in> set (mons s) \<and>
     (case prevmon s of None \<Rightarrow> True | Some p \<Rightarrow> p \<in> set (mons s)) \<and>
     (\<forall>i \<in> set (mons s). mon_ok s i)"

text \<open>
  The tags: every managed client has a mask that is \<open>mask_ok\<close>, and every monitor of
  the chain has \<open>seltags\<close> 0 or 1 and both slots of \<open>tagset\<close> \<open>mask_ok\<close>.
\<close>

definition tags_ok :: "State \<Rightarrow> bool" where
  "tags_ok s \<longleftrightarrow>
     (\<forall>a \<in> managed s. mask_ok (c_tags (cl s a))) \<and>
     (\<forall>i \<in> set (mons s). m_seltags (mn s i) < 2 \<and>
         mask_ok (m_tagset (mn s i) 0) \<and> mask_ok (m_tagset (mn s i) 1))"

definition invariant :: "State \<Rightarrow> bool" where
  "invariant s \<longleftrightarrow> lists_ok s \<and> tags_ok s"

text \<open>
  The states between two handler executions. \<open>init\<close> is the state after \<open>setup\<close> on a
  screen of positive size. Each other rule is one of the functions that the handlers of
  the event loop and the key and button bindings run, with arbitrary arguments; a client
  passed to one of them is a managed one (the handlers get it from \<open>wintoclient\<close>, from
  a client list or from \<open>sel\<close>), a monitor is one of the chain, a structure returned by
  \<open>calloc\<close> is not in use (\<open>manage\<close>: not in a client list; \<open>createmon\<close>: pairwise
  different and not in the chain).
  \<^item> \<open>manage\<close>: \<open>maprequest\<close> and \<open>scan\<close>; \<open>unmanage\<close>: \<open>destroynotify\<close>, \<open>unmapnotify\<close>;
  \<^item> \<open>view\<close> (also \<open>shiftview\<close>), \<open>toggleview\<close>, \<open>tag\<close> (also \<open>tagrel\<close>), \<open>toggletag\<close>,
    \<open>tagmon\<close>, \<open>focusmon\<close> (also \<open>focusmonwarp\<close>), \<open>focusstack\<close>: the key bindings;
  \<^item> \<open>pop\<close>: \<open>zoom\<close>; \<open>clientmessage\<close>; \<open>configurenotify\<close>;
  \<^item> \<open>sendmon\<close>, \<open>select\<close> (the assignment \<open>selmon = m\<close>) and \<open>focus\<close>: the steps of
    \<open>buttonpress\<close>, \<open>enternotify\<close>, \<open>motionnotify\<close>, \<open>movemouse\<close>, \<open>resizemouse\<close> and
    \<open>swapfocus\<close>;
  \<^item> \<open>reorder\<close>: \<open>movestack\<close>, which exchanges two clients of a client list;
  \<^item> \<open>frame\<close>: any change that leaves \<open>links\<close> and \<open>tagview\<close> as they are. This covers
    \<open>arrange\<close>, \<open>resize\<close>, \<open>setfullscreen\<close>, \<open>unfocus\<close> and the handlers that write
    geometry, layout, bar, title, hints or flags only (\<open>configurerequest\<close>,
    \<open>propertynotify\<close>, \<open>setlayout\<close>, \<open>setmfact\<close>, \<open>incnmaster\<close>, \<open>togglebar\<close>,
    \<open>togglefloating\<close>, \<open>modgap\<close>, \<open>centerfloater\<close>, \<open>maximizefloater\<close>).
\<close>

inductive reachable :: "State \<Rightarrow> bool" where
  init: "setup_dwm scr_w scr_h bar_h rootwin xin fresh ptr = Some s \<Longrightarrow>
           0 < scr_w \<Longrightarrow> 0 < scr_h \<Longrightarrow> inj fresh \<Longrightarrow> reachable s"
| manage: "reachable s \<Longrightarrow> a \<notin> managed s \<Longrightarrow> reachable (manage rules s a w wa xw)"
| unmanage: "reachable s \<Longrightarrow> a \<in> managed s \<Longrightarrow> reachable (unmanage s a destroyed)"
| view: "reachable s \<Longrightarrow> reachable (view s ui)"
| toggleview: "reachable s \<Longrightarrow> reachable (toggleview s ui)"
| tag: "reachable s \<Longrightarrow> reachable (tag s ui)"
| toggletag: "reachable s \<Longrightarrow> reachable (toggletag s ui)"
| tagmon: "reachable s \<Longrightarrow> reachable (tagmon s dir)"
| focusmon: "reachable s \<Longrightarrow> reachable (focusmon s dir)"
| focusstack: "reachable s \<Longrightarrow> reachable (focusstack s dir)"
| pop: "reachable s \<Longrightarrow> a \<in> managed s \<Longrightarrow> reachable (pop s a)"
| clientmessage: "reachable s \<Longrightarrow> reachable (clientmessage s cme)"
| configurenotify:
    "reachable s \<Longrightarrow> configurenotify s ev_window ev_width ev_height xin fresh ptr = Some t \<Longrightarrow>
       inj fresh \<Longrightarrow> range fresh \<inter> set (mons s) = {} \<Longrightarrow> reachable t"
| sendmon: "reachable s \<Longrightarrow> a \<in> managed s \<Longrightarrow> i \<in> set (mons s) \<Longrightarrow> reachable (sendmon s a i)"
| select: "reachable s \<Longrightarrow> i \<in> set (mons s) \<Longrightarrow> reachable (s\<lparr>selmon := i\<rparr>)"
| focus: "reachable s \<Longrightarrow> c = None \<or> c \<in> Some ` managed s \<Longrightarrow> reachable (focus s c)"
| reorder: "reachable s \<Longrightarrow> set cs = set (m_clients (mn s i)) \<Longrightarrow> distinct cs \<Longrightarrow>
       reachable (upd_mn s i (\<lambda>m. m\<lparr>m_clients := cs\<rparr>))"
| frame: "reachable s \<Longrightarrow> links t = links s \<Longrightarrow> tagview t = tagview s \<Longrightarrow> reachable t"

section \<open>Properties\<close>

subsection \<open>Size hints: auxiliary facts\<close>

lemma s32_id: "- (2 ^ 31) \<le> v \<Longrightarrow> v < 2 ^ 31 \<Longrightarrow> s32 v = v"
proof (cases "0 \<le> v")
  case True
  assume "v < 2 ^ 31"
  with True have "v mod 2 ^ 32 = v" by (simp add: mod_pos_pos_trivial)
  with \<open>v < 2 ^ 31\<close> show ?thesis by (simp add: s32_def)
next
  case False
  assume "- (2 ^ 31) \<le> v"
  with False have "(v + 2 ^ 32) mod 2 ^ 32 = v + 2 ^ 32"
    by (intro mod_pos_pos_trivial) simp_all
  then have "v mod 2 ^ 32 = v + 2 ^ 32" by simp
  with False \<open>- (2 ^ 31) \<le> v\<close> show ?thesis by (simp add: s32_def)
qed

lemma no_overflowD:
  assumes "no_overflow s c (x, y, w, h)"
  shows "\<bar>x\<bar> \<le> 2 ^ 29" "\<bar>y\<bar> \<le> 2 ^ 29" "\<bar>w\<bar> \<le> 2 ^ 29" "\<bar>h\<bar> \<le> 2 ^ 29"
    "\<bar>c_w c\<bar> \<le> 2 ^ 26" "\<bar>c_h c\<bar> \<le> 2 ^ 26" "\<bar>c_bw c\<bar> \<le> 2 ^ 26"
    "\<bar>c_basew c\<bar> \<le> 2 ^ 26" "\<bar>c_baseh c\<bar> \<le> 2 ^ 26"
    "\<bar>c_minw c\<bar> \<le> 2 ^ 26" "\<bar>c_minh c\<bar> \<le> 2 ^ 26"
    "\<bar>sw s\<bar> \<le> 2 ^ 26" "\<bar>sh s\<bar> \<le> 2 ^ 26" "\<bar>bh s\<bar> \<le> 2 ^ 26"
    "\<bar>m_wx (mn s (c_mon c))\<bar> \<le> 2 ^ 26" "\<bar>m_wy (mn s (c_mon c))\<bar> \<le> 2 ^ 26"
    "\<bar>m_ww (mn s (c_mon c))\<bar> \<le> 2 ^ 26" "\<bar>m_wh (mn s (c_mon c))\<bar> \<le> 2 ^ 26"
  using assms unfolding no_overflow_def by simp_all

text \<open>Without overflow the position block computes with plain integers.\<close>

lemma sizehints_position_nowrap:
  assumes "no_overflow s c (x, y, w, h)"
  shows "sizehints_position s c interact (x, y, w, h) =
    (let m = mn s (c_mon c) in
     if interact then
       (let xa = (if x \<ge> sw s then sw s - WIDTH c else x);
            ya = (if y > sh s then sh s - HEIGHT c else y)
        in (if xa + w + 2 * c_bw c < 0 then 0 else xa,
            if ya + h + 2 * c_bw c < 0 then 0 else ya))
     else
       (let xa = (if x \<ge> m_wx m + m_ww m then m_wx m + m_ww m - WIDTH c else x);
            ya = (if y \<ge> m_wy m + m_wh m then m_wy m + m_wh m - HEIGHT c else y)
        in (if xa + w + 2 * c_bw c \<le> m_wx m then m_wx m else xa,
            if ya + h + 2 * c_bw c \<le> m_wy m then m_wy m else ya)))"
proof -
  note b = no_overflowD [OF assms, unfolded abs_le_iff]
  have e: "s32 (sw s - WIDTH c) = sw s - WIDTH c" "s32 (sh s - HEIGHT c) = sh s - HEIGHT c"
    "s32 (m_wx (mn s (c_mon c)) + m_ww (mn s (c_mon c))) =
       m_wx (mn s (c_mon c)) + m_ww (mn s (c_mon c))"
    "s32 (m_wy (mn s (c_mon c)) + m_wh (mn s (c_mon c))) =
       m_wy (mn s (c_mon c)) + m_wh (mn s (c_mon c))"
    "s32 (m_wx (mn s (c_mon c)) + m_ww (mn s (c_mon c)) - WIDTH c) =
       m_wx (mn s (c_mon c)) + m_ww (mn s (c_mon c)) - WIDTH c"
    "s32 (m_wy (mn s (c_mon c)) + m_wh (mn s (c_mon c)) - HEIGHT c) =
       m_wy (mn s (c_mon c)) + m_wh (mn s (c_mon c)) - HEIGHT c"
    using b(5-) by (simp_all add: s32_id WIDTH_def HEIGHT_def)
  have ax: "\<bar>sw s - WIDTH c\<bar> \<le> 2 ^ 29" "\<bar>sh s - HEIGHT c\<bar> \<le> 2 ^ 29"
    "\<bar>m_wx (mn s (c_mon c)) + m_ww (mn s (c_mon c)) - WIDTH c\<bar> \<le> 2 ^ 29"
    "\<bar>m_wy (mn s (c_mon c)) + m_wh (mn s (c_mon c)) - HEIGHT c\<bar> \<le> 2 ^ 29"
    using b(5-) by (simp_all add: WIDTH_def HEIGHT_def abs_le_iff)
  have f: "s32 (v + w + 2 * c_bw c) = v + w + 2 * c_bw c"
          "s32 (v + h + 2 * c_bw c) = v + h + 2 * c_bw c" if "\<bar>v\<bar> \<le> 2 ^ 29" for v
    using that b by (simp_all add: s32_id abs_le_iff)
  have x: "\<bar>x\<bar> \<le> 2 ^ 29" "\<bar>y\<bar> \<le> 2 ^ 29"
    using b(1,2) by (simp_all add: abs_le_iff)
  have g: "s32 ((if P then a else v) + w + 2 * c_bw c) = (if P then a else v) + w + 2 * c_bw c"
          "s32 ((if P then a else v) + h + 2 * c_bw c) = (if P then a else v) + h + 2 * c_bw c"
    if "\<bar>a\<bar> \<le> 2 ^ 29" "\<bar>v\<bar> \<le> 2 ^ 29" for P a v
    using that by (simp_all add: f)
  show ?thesis
    unfolding sizehints_position_def Let_def prod.case e
      g(1) [OF ax(1) x(1)] g(2) [OF ax(2) x(2)] g(1) [OF ax(3) x(1)] g(2) [OF ax(4) x(2)]
    by (rule refl)
qed

lemma no_overflow_request:
  assumes "no_overflow s c r" "\<bar>x\<bar> \<le> 2 ^ 29" "\<bar>y\<bar> \<le> 2 ^ 29" "\<bar>w\<bar> \<le> 2 ^ 29" "\<bar>h\<bar> \<le> 2 ^ 29"
  shows "no_overflow s c (x, y, w, h)"
  using assms unfolding no_overflow_def by simp

text \<open>
  The position that the position block returns is kept by it when it is applied again
  with a rectangle that is not smaller, and it is in range again.
\<close>

lemma sizehints_position_stable:
  assumes ap: "if interact then sw s > 0 \<and> sh s \<ge> 0
           else m_ww (mn s (c_mon c)) > 0 \<and> m_wh (mn s (c_mon c)) > 0"
      and no: "no_overflow s c (x, y, w, h)"
      and p: "sizehints_position s c interact (x, y, w, h) = (x', y')"
      and ge: "w \<le> w'" "h \<le> h'" and le: "\<bar>w'\<bar> \<le> 2 ^ 29" "\<bar>h'\<bar> \<le> 2 ^ 29"
  shows "sizehints_position s c interact (x', y', w', h') = (x', y')"
    and "\<bar>x'\<bar> \<le> 2 ^ 29" and "\<bar>y'\<bar> \<le> 2 ^ 29"
proof -
  note b = no_overflowD [OF no, unfolded abs_le_iff]
  have ax: "\<bar>sw s - WIDTH c\<bar> \<le> 2 ^ 29" "\<bar>sh s - HEIGHT c\<bar> \<le> 2 ^ 29"
    "\<bar>m_wx (mn s (c_mon c)) + m_ww (mn s (c_mon c)) - WIDTH c\<bar> \<le> 2 ^ 29"
    "\<bar>m_wy (mn s (c_mon c)) + m_wh (mn s (c_mon c)) - HEIGHT c\<bar> \<le> 2 ^ 29"
    "\<bar>m_wx (mn s (c_mon c))\<bar> \<le> 2 ^ 29" "\<bar>m_wy (mn s (c_mon c))\<bar> \<le> 2 ^ 29"
    using b(5-) by (simp_all add: WIDTH_def HEIGHT_def abs_le_iff)
  have xy: "\<bar>x\<bar> \<le> 2 ^ 29" "\<bar>y\<bar> \<le> 2 ^ 29"
    using b(1,2) by (simp_all add: abs_le_iff)
  have x': "x' \<in> {x, 0, sw s - WIDTH c, m_wx (mn s (c_mon c)),
                  m_wx (mn s (c_mon c)) + m_ww (mn s (c_mon c)) - WIDTH c}"
    using p unfolding sizehints_position_nowrap [OF no] Let_def
    by (auto split: if_splits)
  have y': "y' \<in> {y, 0, sh s - HEIGHT c, m_wy (mn s (c_mon c)),
                  m_wy (mn s (c_mon c)) + m_wh (mn s (c_mon c)) - HEIGHT c}"
    using p unfolding sizehints_position_nowrap [OF no] Let_def
    by (auto split: if_splits)
  show bdx: "\<bar>x'\<bar> \<le> 2 ^ 29" using x' ax xy by auto
  show bdy: "\<bar>y'\<bar> \<le> 2 ^ 29" using y' ax xy by auto
  have no': "no_overflow s c (x', y', w', h')"
    using no bdx bdy le by (rule no_overflow_request)
  show "sizehints_position s c interact (x', y', w', h') = (x', y')"
    using ap p ge unfolding sizehints_position_nowrap [OF no] sizehints_position_nowrap [OF no']
    by (auto simp: Let_def split: if_splits)
qed

text \<open>
  Without resize increments, maximum size and aspect limits the size block only
  raises the request to the minimum size.
\<close>

lemma sizehints_size_min_only:
  assumes "c_incw c = 0" "c_inch c = 0" "c_maxw c = 0" "c_maxh c = 0"
          "\<not> (float_less (Finite 0) (c_mina c) \<and> float_less (Finite 0) (c_maxa c))"
      and "\<bar>w\<bar> \<le> 2 ^ 29" "\<bar>h\<bar> \<le> 2 ^ 29" "\<bar>c_basew c\<bar> \<le> 2 ^ 26" "\<bar>c_baseh c\<bar> \<le> 2 ^ 26"
  shows "sizehints_size c (w, h) = (max w (c_minw c), max h (c_minh c))"
  using assms by (auto simp: sizehints_size_def Let_def s32_id abs_le_iff)

lemma applysizehints_unfold:
  "applysizehints s c (x, y, w, h) i =
   (let p = sizehints_position s c i (x, y, max 1 w, max 1 h);
        w2 = (if max 1 w < bh s then bh s else max 1 w);
        h2 = (if max 1 h < bh s then bh s else max 1 h);
        q = (if c_sizehints c \<or> c_isfloating c \<or> l_arrange (m_lt (mn s (c_mon c))) = None
            then sizehints_size c (w2, h2) else (w2, h2))
    in (fst p \<noteq> c_x c \<or> snd p \<noteq> c_y c \<or> fst q \<noteq> c_w c \<or> snd q \<noteq> c_h c,
        fst p, snd p, fst q, snd q))"
  by (simp add: applysizehints_def Let_def split_beta)

subsection \<open>Frame lemmas: what the operations leave unchanged\<close>

lemma skeleton_resizeclient: "skeleton (resizeclient s a x y w h) = skeleton s"
  by (simp add: skeleton_def resizeclient_def upd_cl_def strip_geometry_def fun_eq_iff)

lemma skeleton_resize: "skeleton (resize s a x y w h i) = skeleton s"
  by (simp add: resize_def skeleton_resizeclient split: prod.splits)

lemma skeleton_showhide: "skeleton (showhide s as) = skeleton s"
  by (induction as arbitrary: s) (simp_all add: skeleton_resize)

lemma skeleton_tile_loop: "skeleton (tile_loop s i n an mw as k my ty) = skeleton s"
proof (induction as arbitrary: s k my ty)
  case Nil
  then show ?case by simp
next
  case (Cons a as)
  show ?case
    unfolding tile_loop.simps Let_def
    by (simp only: if_distrib [of skeleton] Cons.IH skeleton_resize if_cancel)
qed

lemma skeleton_monocle_loop: "skeleton (monocle_loop s i as) = skeleton s"
proof (induction as arbitrary: s)
  case Nil
  then show ?case by simp
next
  case (Cons a as)
  show ?case
    unfolding monocle_loop.simps Let_def
    by (simp only: if_distrib [of skeleton] Cons.IH skeleton_resize if_cancel)
qed


lemma skeleton_tile: "skeleton (tile s i) = skeleton s"
  unfolding tile_def Let_def by (simp only: if_distrib [of skeleton] skeleton_tile_loop if_cancel)

lemma skeleton_ltsymbol: "skeleton (upd_mn s i (\<lambda>m. m\<lparr>m_ltsymbol := f m\<rparr>)) = skeleton s"
  by (simp add: skeleton_def upd_mn_def strip_symbol_def fun_eq_iff)

lemma skeleton_monocle: "skeleton (monocle s i) = skeleton s"
  unfolding monocle_def Let_def
  by (simp only: if_distrib [of skeleton] skeleton_monocle_loop skeleton_ltsymbol if_cancel)

lemma skeleton_arrangemon: "skeleton (arrangemon s i) = skeleton s"
proof -
  let ?s1 = "upd_mn s i (\<lambda>m. m\<lparr>m_ltsymbol := take 16 (l_symbol (m_lt m))\<rparr>)"
  have "skeleton (arrangemon s i) = skeleton ?s1"
    unfolding arrangemon_def Let_def
    by (cases "l_arrange (m_lt (mn ?s1 i))"; cases "the (l_arrange (m_lt (mn ?s1 i)))")
       (simp_all only: option.case arrange_fn.case skeleton_tile skeleton_monocle option.sel)
  then show ?thesis by (simp only: skeleton_ltsymbol)
qed

lemma skeleton_fold_showhide:
  "skeleton (fold (\<lambda>i t. showhide t (m_stack (mn t i))) js s) = skeleton s"
  by (induction js arbitrary: s) (simp_all add: skeleton_showhide)

lemma skeleton_fold_arrangemon:
  "skeleton (fold (\<lambda>i t. arrangemon t i) js s) = skeleton s"
  by (induction js arbitrary: s) (simp_all add: skeleton_arrangemon)

lemma skeleton_arrange: "skeleton (arrange s mo) = skeleton s"
  by (cases mo) (simp_all add: arrange_def restack_def Let_def skeleton_showhide skeleton_arrangemon
      skeleton_fold_showhide skeleton_fold_arrangemon)


lemma skeleton_eq_globals:
  assumes "skeleton t = skeleton s"
  shows "mons t = mons s" "selmon t = selmon s" "prevmon t = prevmon s"
        "prevclient t = prevclient s" "gappx t = gappx s" "sw t = sw s" "sh t = sh s" "bh t = bh s" "root t = root s"
proof -
  have "mons (skeleton t) = mons (skeleton s)" "selmon (skeleton t) = selmon (skeleton s)"
       "prevmon (skeleton t) = prevmon (skeleton s)" "prevclient (skeleton t) = prevclient (skeleton s)"
       "gappx (skeleton t) = gappx (skeleton s)" "sw (skeleton t) = sw (skeleton s)"
       "sh (skeleton t) = sh (skeleton s)" "bh (skeleton t) = bh (skeleton s)"
       "root (skeleton t) = root (skeleton s)"
    by (simp_all only: assms)
  then show "mons t = mons s" "selmon t = selmon s" "prevmon t = prevmon s"
        "prevclient t = prevclient s" "gappx t = gappx s" "sw t = sw s" "sh t = sh s" "bh t = bh s" "root t = root s"
    by (simp_all add: skeleton_def)
qed

lemma skeleton_eq_cl:
  assumes "skeleton t = skeleton s"
  shows "strip_geometry (cl t a) = strip_geometry (cl s a)"
proof -
  have "cl (skeleton t) a = cl (skeleton s) a" by (simp only: assms)
  then show ?thesis by (simp add: skeleton_def)
qed

lemma skeleton_eq_mn:
  assumes "skeleton t = skeleton s"
  shows "strip_symbol (mn t i) = strip_symbol (mn s i)"
proof -
  have "mn (skeleton t) i = mn (skeleton s) i" by (simp only: assms)
  then show ?thesis by (simp add: skeleton_def)
qed

lemma strip_geometry_fields:
  "c_tags (strip_geometry c) = c_tags c" "c_mon (strip_geometry c) = c_mon c"
  "c_isfloating (strip_geometry c) = c_isfloating c" "c_bw (strip_geometry c) = c_bw c"
  "c_isfullscreen (strip_geometry c) = c_isfullscreen c" "c_oldstate (strip_geometry c) = c_oldstate c"
  "c_oldbw (strip_geometry c) = c_oldbw c" "c_win (strip_geometry c) = c_win c"
  "c_sizehints (strip_geometry c) = c_sizehints c" "c_isurgent (strip_geometry c) = c_isurgent c"
  by (simp_all add: strip_geometry_def)

lemma strip_symbol_fields:
  "m_tagset (strip_symbol m) = m_tagset m" "m_seltags (strip_symbol m) = m_seltags m"
  "m_clients (strip_symbol m) = m_clients m" "m_stack (strip_symbol m) = m_stack m"
  "m_sel (strip_symbol m) = m_sel m" "m_lt (strip_symbol m) = m_lt m"
  "m_num (strip_symbol m) = m_num m"
  "m_mx (strip_symbol m) = m_mx m" "m_my (strip_symbol m) = m_my m"
  "m_mw (strip_symbol m) = m_mw m" "m_mh (strip_symbol m) = m_mh m"
  "m_wx (strip_symbol m) = m_wx m" "m_wy (strip_symbol m) = m_wy m"
  "m_ww (strip_symbol m) = m_ww m" "m_wh (strip_symbol m) = m_wh m"
  by (simp_all add: strip_symbol_def)

lemma skeleton_eq_client_fields:
  assumes "skeleton t = skeleton s"
  shows "c_tags (cl t a) = c_tags (cl s a)" "c_mon (cl t a) = c_mon (cl s a)"
        "c_isfloating (cl t a) = c_isfloating (cl s a)" "c_bw (cl t a) = c_bw (cl s a)"
        "c_isfullscreen (cl t a) = c_isfullscreen (cl s a)" "c_oldstate (cl t a) = c_oldstate (cl s a)"
        "c_oldbw (cl t a) = c_oldbw (cl s a)" "c_win (cl t a) = c_win (cl s a)"
        "c_sizehints (cl t a) = c_sizehints (cl s a)" "c_isurgent (cl t a) = c_isurgent (cl s a)"
  using strip_geometry_fields [of "cl t a"] strip_geometry_fields [of "cl s a"]
  unfolding skeleton_eq_cl [OF assms, of a] by simp_all

lemma skeleton_eq_monitor_fields:
  assumes "skeleton t = skeleton s"
  shows "m_tagset (mn t i) = m_tagset (mn s i)" "m_seltags (mn t i) = m_seltags (mn s i)"
        "m_clients (mn t i) = m_clients (mn s i)" "m_stack (mn t i) = m_stack (mn s i)"
        "m_sel (mn t i) = m_sel (mn s i)" "m_lt (mn t i) = m_lt (mn s i)"
        "m_num (mn t i) = m_num (mn s i)"
        "m_mx (mn t i) = m_mx (mn s i)" "m_my (mn t i) = m_my (mn s i)"
        "m_mw (mn t i) = m_mw (mn s i)" "m_mh (mn t i) = m_mh (mn s i)"
        "m_wx (mn t i) = m_wx (mn s i)" "m_wy (mn t i) = m_wy (mn s i)"
        "m_ww (mn t i) = m_ww (mn s i)" "m_wh (mn t i) = m_wh (mn s i)"
  using strip_symbol_fields [of "mn t i"] strip_symbol_fields [of "mn s i"]
  unfolding skeleton_eq_mn [OF assms, of i] by simp_all

lemma upd_mn_simps [simp]:
  "mn (upd_mn s i f) = (mn s)(i := f (mn s i))" "cl (upd_mn s i f) = cl s"
  "mons (upd_mn s i f) = mons s" "selmon (upd_mn s i f) = selmon s"
  "prevmon (upd_mn s i f) = prevmon s" "prevclient (upd_mn s i f) = prevclient s"
  "gappx (upd_mn s i f) = gappx s" "sw (upd_mn s i f) = sw s" "sh (upd_mn s i f) = sh s"
  "bh (upd_mn s i f) = bh s" "root (upd_mn s i f) = root s"
  by (simp_all add: upd_mn_def)

lemma upd_cl_simps [simp]:
  "cl (upd_cl s a f) = (cl s)(a := f (cl s a))" "mn (upd_cl s a f) = mn s"
  "mons (upd_cl s a f) = mons s" "selmon (upd_cl s a f) = selmon s"
  "prevmon (upd_cl s a f) = prevmon s" "prevclient (upd_cl s a f) = prevclient s"
  "gappx (upd_cl s a f) = gappx s" "sw (upd_cl s a f) = sw s" "sh (upd_cl s a f) = sh s"
  "bh (upd_cl s a f) = bh s" "root (upd_cl s a f) = root s"
  by (simp_all add: upd_cl_def)

lemma tagview_attach [simp]: "tagview (attach s a) = tagview s"
  by (simp add: tagview_def attach_def fun_eq_iff)

lemma tagview_attachstack [simp]: "tagview (attachstack s a) = tagview s"
  by (simp add: tagview_def attachstack_def fun_eq_iff)

lemma tagview_detach [simp]: "tagview (detach s a) = tagview s"
  by (simp add: tagview_def detach_def fun_eq_iff)

lemma tagview_detachstack [simp]: "tagview (detachstack s a) = tagview s"
  by (simp add: tagview_def detachstack_def Let_def fun_eq_iff)

lemma tagview_unfocus [simp]: "tagview (unfocus s c b) = tagview s"
  by (simp add: tagview_def unfocus_def split: option.splits)

lemma tagview_clearurgent [simp]: "tagview (clearurgent s a) = tagview s"
  by (simp add: tagview_def clearurgent_def fun_eq_iff)

lemma tagview_selmon [simp]: "tagview (s\<lparr>selmon := i\<rparr>) = tagview s"
  by (simp add: tagview_def)

lemma tagview_set_sel [simp]: "tagview (upd_mn s i (\<lambda>m. m\<lparr>m_sel := c\<rparr>)) = tagview s"
  by (simp add: tagview_def fun_eq_iff)

lemma tagview_focus_client [simp]: "tagview (focus_client s a) = tagview s"
  by (simp add: focus_client_def Let_def)

lemma tagview_focus [simp]: "tagview (focus s c) = tagview s"
  by (simp add: focus_def Let_def split: option.splits)

lemma tagview_skeleton: "tagview (skeleton s) = tagview s"
  by (simp add: tagview_def skeleton_def strip_geometry_def strip_symbol_def)

lemma tagview_skeleton_eq: "skeleton t = skeleton s \<Longrightarrow> tagview t = tagview s"
  using tagview_skeleton by metis

lemma tagview_arrange [simp]: "tagview (arrange s mo) = tagview s"
  by (rule tagview_skeleton_eq) (rule skeleton_arrange)

lemma ISVISIBLE_tagview: "tagview t = tagview s \<Longrightarrow> ISVISIBLE t = ISVISIBLE s"
  by (auto simp: tagview_def ISVISIBLE_def fun_eq_iff Let_def)

lemma tagview_fields:
  assumes "tagview t = tagview s"
  shows "c_tags (cl t a) = c_tags (cl s a)" "c_mon (cl t a) = c_mon (cl s a)"
        "m_tagset (mn t i) = m_tagset (mn s i)" "m_seltags (mn t i) = m_seltags (mn s i)"
  using assms by (auto simp: tagview_def fun_eq_iff)

lemma find_in_set: "find P xs = Some a \<Longrightarrow> a \<in> set xs"
  by (induction xs) (auto split: if_splits)

lemma selmon_detachstack [simp]: "selmon (detachstack s a) = selmon s"
  by (simp add: detachstack_def Let_def)

lemma selmon_attachstack [simp]: "selmon (attachstack s a) = selmon s"
  by (simp add: attachstack_def)

lemma selmon_unfocus [simp]: "selmon (unfocus s c b) = selmon s"
  by (simp add: unfocus_def split: option.splits)

lemma selmon_clearurgent [simp]: "selmon (clearurgent s a) = selmon s"
  by (simp add: clearurgent_def)

lemma cl_unfocus [simp]: "cl (unfocus s c b) = cl s"
  by (simp add: unfocus_def split: option.splits)

lemma mn_unfocus [simp]: "mn (unfocus s c b) = mn s"
  by (simp add: unfocus_def split: option.splits)

lemma selmon_focus_None:
  assumes "stack_on_monitor s (selmon s)"
  shows "selmon (focus s None) = selmon s"
proof (cases "find (ISVISIBLE s) (m_stack (mn s (selmon s)))")
  case None
  then show ?thesis by (simp add: focus_def focus_target_def focus_client_def Let_def)
next
  case (Some a)
  then have "c_mon (cl s a) = selmon s"
    using assms find_in_set unfolding stack_on_monitor_def by fastforce
  with Some show ?thesis by (simp add: focus_def focus_target_def focus_client_def Let_def)
qed

lemma set_stack_detach_attach:
  "set (m_stack (mn (attachstack (detachstack s a) a) i)) =
   (if i = c_mon (cl s a) then insert a (set (m_stack (mn s i))) else set (m_stack (mn s i)))"
proof -
  have "insert a (set (remove1 a xs)) = insert a (set xs)" for xs :: "addr list"
    by (induction xs) auto
  then show ?thesis
    by (auto simp: attachstack_def detachstack_def Let_def)
qed

lemma cl_detachstack [simp]: "cl (detachstack s a) = cl s"
  by (simp add: detachstack_def Let_def)

lemma cl_attachstack [simp]: "cl (attachstack s a) = cl s"
  by (simp add: attachstack_def)

lemma mons_simps [simp]:
  "m_stack (mn (clearurgent s a) i) = m_stack (mn s i)"
  by (simp_all add: clearurgent_def)

lemma c_mon_clearurgent [simp]: "c_mon (cl (clearurgent s a) b) = c_mon (cl s b)"
  by (simp add: clearurgent_def)

lemma set_stack_focus_None:
  assumes "stack_on_monitor s (selmon s)"
  shows "set (m_stack (mn (focus s None) i)) = set (m_stack (mn s i))"
proof (cases "find (ISVISIBLE s) (m_stack (mn s (selmon s)))")
  case None
  then show ?thesis by (simp add: focus_def focus_target_def focus_client_def Let_def)
next
  case (Some a)
  then have in_stack: "a \<in> set (m_stack (mn s (selmon s)))" by (rule find_in_set)
  then have mon: "c_mon (cl s a) = selmon s"
    using assms unfolding stack_on_monitor_def by fastforce
  show ?thesis
    using Some mon in_stack
    by (auto simp: focus_def focus_target_def focus_client_def Let_def set_stack_detach_attach)
qed

lemma stack_on_monitor_focus_None:
  assumes "stack_on_monitor s (selmon s)"
  shows "stack_on_monitor (focus s None) (selmon s)"
  using assms tagview_fields(2) [OF tagview_focus, of s None]
  unfolding stack_on_monitor_def set_stack_focus_None [OF assms] by simp

lemma xor_one_neq: "(w :: 32 word) XOR 1 \<noteq> w"
proof
  assume "w XOR 1 = w"
  then have "bit (w XOR 1) 0 = bit w 0" by simp
  then show False by (simp add: bit_xor_iff)
qed

lemma xor_one_twice: "((w :: 32 word) XOR 1) XOR 1 = w"
  by (simp add: xor.assoc)


lemma stack_on_monitor_tagslot:
  "stack_on_monitor (upd_mn s i (\<lambda>m. m\<lparr>m_seltags := f m\<rparr>)) j = stack_on_monitor s j"
  "stack_on_monitor (upd_mn s i (\<lambda>m. m\<lparr>m_tagset := g m\<rparr>)) j = stack_on_monitor s j"
  by (simp_all add: stack_on_monitor_def)

lemma stack_on_monitor_skeleton_eq:
  assumes "skeleton t = skeleton s"
  shows "stack_on_monitor t i = stack_on_monitor s i"
  unfolding stack_on_monitor_def
  by (simp add: skeleton_eq_monitor_fields [OF assms] skeleton_eq_client_fields [OF assms])

lemma view_effect:
  assumes st: "stack_on_monitor s (selmon s)"
  shows "selmon (view s ui) = selmon s"
    and "stack_on_monitor (view s ui) (selmon s)"
    and "m_seltags (mn (view s ui) (selmon s)) =
           (if ui AND TAGMASK = active_tagset s (selmon s) then m_seltags (mn s (selmon s))
            else m_seltags (mn s (selmon s)) XOR 1)"
    and "m_tagset (mn (view s ui) (selmon s)) =
           (if ui AND TAGMASK = active_tagset s (selmon s) \<or> ui AND TAGMASK = 0
            then m_tagset (mn s (selmon s))
            else (m_tagset (mn s (selmon s)))(m_seltags (mn s (selmon s)) XOR 1 := ui AND TAGMASK))"
proof -
  define i where "i = selmon s"
  define s1 where "s1 = upd_mn s (selmon s) (\<lambda>m. m\<lparr>m_seltags := m_seltags m XOR 1\<rparr>)"
  define s2 where "s2 = (if ui AND TAGMASK \<noteq> 0
             then upd_mn s1 (selmon s1)
                    (\<lambda>m. m\<lparr>m_tagset := (m_tagset m)(m_seltags m := ui AND TAGMASK)\<rparr>)
             else s1)"
  define s3 where "s3 = focus s2 None"
  define s4 where "s4 = arrange s3 (Some (selmon s3))"
  have v: "view s ui = (if ui AND TAGMASK = active_tagset s i then s else s4)"
    unfolding view_def Let_def active_tagset_def s4_def s3_def s2_def s1_def i_def ..
  have sel2: "selmon s2 = i" by (simp add: s2_def s1_def i_def)
  have st2: "stack_on_monitor s2 (selmon s2)"
    unfolding sel2 using st by (simp add: s2_def s1_def i_def stack_on_monitor_tagslot)
  have sel3: "selmon s3 = i"
    using selmon_focus_None [OF st2] sel2 by (simp add: s3_def)
  have st3: "stack_on_monitor s3 i"
    using stack_on_monitor_focus_None [OF st2] sel2 by (simp add: s3_def)
  have sk: "skeleton s4 = skeleton s3" unfolding s4_def by (rule skeleton_arrange)
  have sel4: "selmon s4 = i" using skeleton_eq_globals(2) [OF sk] sel3 by simp
  have st4: "stack_on_monitor s4 i" using stack_on_monitor_skeleton_eq [OF sk] st3 by simp
  have tv: "tagview s4 = tagview s2" by (simp add: s4_def s3_def)
  have f2: "m_seltags (mn s2 i) = m_seltags (mn s i) XOR 1"
           "m_tagset (mn s2 i) = (if ui AND TAGMASK = 0 then m_tagset (mn s i)
               else (m_tagset (mn s i))(m_seltags (mn s i) XOR 1 := ui AND TAGMASK))"
    by (simp_all add: s2_def s1_def i_def)
  show "selmon (view s ui) = selmon s"
    unfolding v using sel4 by (simp add: i_def)
  show "stack_on_monitor (view s ui) (selmon s)"
    unfolding v using st4 st by (simp add: i_def)
  show "m_seltags (mn (view s ui) (selmon s)) =
           (if ui AND TAGMASK = active_tagset s (selmon s) then m_seltags (mn s (selmon s))
            else m_seltags (mn s (selmon s)) XOR 1)"
    unfolding v i_def [symmetric] using tagview_fields(4) [OF tv, of i] f2 by simp
  show "m_tagset (mn (view s ui) (selmon s)) =
           (if ui AND TAGMASK = active_tagset s (selmon s) \<or> ui AND TAGMASK = 0
            then m_tagset (mn s (selmon s))
            else (m_tagset (mn s (selmon s)))(m_seltags (mn s (selmon s)) XOR 1 := ui AND TAGMASK))"
    unfolding v i_def [symmetric] using tagview_fields(3) [OF tv, of i] f2 by simp
qed



lemma TAGMASK_value: "TAGMASK = 511"
  by (simp add: TAGMASK_def tags_def)

lemma ex_state_fields:
  "selmon ex_state = 1" "mn ex_state i = ex_mon" "cl ex_state a = ex_client"
  "m_seltags ex_mon = 0" "m_tagset ex_mon = (\<lambda>i. 1)" "m_stack ex_mon = []" "m_clients ex_mon = []"
  by (simp_all add: ex_state_def ex_mon_def)

subsection \<open>Clients that \<open>arrange\<close> does not move\<close>

lemma applysizehints_skeleton_eq:
  assumes "skeleton t = skeleton s"
  shows "applysizehints t c r i = applysizehints s c r i"
  unfolding applysizehints_def sizehints_position_def Let_def
  by (simp only: skeleton_eq_globals [OF assms] skeleton_eq_monitor_fields [OF assms])

lemma ISVISIBLE_skeleton_eq:
  assumes "skeleton t = skeleton s"
  shows "ISVISIBLE t = ISVISIBLE s"
  by (rule ISVISIBLE_tagview) (rule tagview_skeleton_eq [OF assms])

lemma resize_other: "b \<noteq> a \<Longrightarrow> cl (resize s b x y w h i) a = cl s a"
  by (simp add: resize_def resizeclient_def split: prod.splits)

lemma applysizehints_changed:
  "fst (applysizehints s c r i) \<longleftrightarrow> snd (applysizehints s c r i) \<noteq> geom c"
proof -
  obtain x y w h where r: "r = (x, y, w, h)" by (cases r) auto
  show ?thesis
    unfolding r applysizehints_unfold Let_def geom_def
    by (simp only: fst_conv snd_conv prod.inject de_Morgan_conj)
qed

lemma resize_unchanged:
  assumes "snd (applysizehints s (cl s a) (x, y, w, h) i) = geom (cl s a)"
  shows "resize s a x y w h i = s"
proof -
  have "\<not> fst (applysizehints s (cl s a) (x, y, w, h) i)"
    using assms by (simp add: applysizehints_changed)
  then show ?thesis
    by (simp add: resize_def split_beta)
qed

lemma stays_put_cong:
  assumes "skeleton t = skeleton s" and "cl t a = cl s a"
  shows "stays_put t a = stays_put s a"
  unfolding stays_put_def
  by (simp add: assms(2) ISVISIBLE_skeleton_eq [OF assms(1)] applysizehints_skeleton_eq [OF assms(1)]
      skeleton_eq_monitor_fields [OF assms(1)])


lemma istiled_skeleton_eq:
  assumes "skeleton t = skeleton s"
  shows "istiled t = istiled s"
  by (simp add: istiled_def fun_eq_iff ISVISIBLE_skeleton_eq [OF assms]
      skeleton_eq_client_fields [OF assms])

lemma showhide_stays_put:
  "stays_put s a \<Longrightarrow> cl (showhide s as) a = cl s a"
proof (induction as arbitrary: s)
  case Nil
  then show ?case by simp
next
  case (Cons b as)
  let ?c = "cl s b"
  let ?t = "resize s b (c_x ?c) (c_y ?c) (c_w ?c) (c_h ?c) False"
  have sk: "skeleton ?t = skeleton s" by (rule skeleton_resize)
  have same: "ISVISIBLE s b \<Longrightarrow>
              (l_arrange (m_lt (mn s (c_mon ?c))) = None \<or> c_isfloating ?c) \<and> \<not> c_isfullscreen ?c \<Longrightarrow>
              cl ?t a = cl s a"
  proof (cases "b = a")
    case False
    then show ?thesis by (simp add: resize_other)
  next
    case True
    assume "ISVISIBLE s b"
      and "(l_arrange (m_lt (mn s (c_mon ?c))) = None \<or> c_isfloating ?c) \<and> \<not> c_isfullscreen ?c"
    with Cons.prems True
    have "snd (applysizehints s (cl s a) (geom (cl s a)) False) = geom (cl s a)"
      by (auto simp: stays_put_def)
    then have "resize s a (c_x (cl s a)) (c_y (cl s a)) (c_w (cl s a)) (c_h (cl s a)) False = s"
      by (intro resize_unchanged) (simp add: geom_def)
    with True show ?thesis by simp
  qed
  show ?case
  proof (cases "ISVISIBLE s b \<and>
      (l_arrange (m_lt (mn s (c_mon ?c))) = None \<or> c_isfloating ?c) \<and> \<not> c_isfullscreen ?c")
    case True
    then have eq: "cl ?t a = cl s a" using same by blast
    then have "stays_put ?t a" using Cons.prems stays_put_cong [OF sk eq] by simp
    then have "cl (showhide ?t as) a = cl ?t a" by (rule Cons.IH)
    with True eq show ?thesis by simp
  next
    case False
    have "cl (showhide s as) a = cl s a" using Cons.prems by (rule Cons.IH)
    with False show ?thesis by auto
  qed
qed

lemma tile_loop_not_tiled:
  "\<not> istiled s a \<Longrightarrow> cl (tile_loop s i n an mw as k my ty) a = cl s a"
proof (induction as arbitrary: s k my ty)
  case Nil
  then show ?case by simp
next
  case (Cons b as)
  show ?case
  proof (cases "istiled s b")
    case False
    then show ?thesis using Cons by simp
  next
    case True
    with Cons.prems have ne: "b \<noteq> a" by auto
    have step: "cl (tile_loop t i n an mw as k' my' ty') a = cl s a"
      if "skeleton t = skeleton s" "cl t a = cl s a" for t k' my' ty'
    proof -
      have "\<not> istiled t a" using Cons.prems istiled_skeleton_eq [OF that(1)] by simp
      then show ?thesis using Cons.IH that(2) by simp
    qed
    show ?thesis
      unfolding tile_loop.simps Let_def using True
      by (simp add: step skeleton_resize resize_other [OF ne])
  qed
qed

lemma monocle_loop_not_tiled:
  "\<not> istiled s a \<Longrightarrow> cl (monocle_loop s i as) a = cl s a"
proof (induction as arbitrary: s)
  case Nil
  then show ?case by simp
next
  case (Cons b as)
  show ?case
  proof (cases "istiled s b")
    case False
    then show ?thesis using Cons by simp
  next
    case True
    with Cons.prems have ne: "b \<noteq> a" by auto
    have step: "cl (monocle_loop t i as) a = cl s a"
      if "skeleton t = skeleton s" "cl t a = cl s a" for t
    proof -
      have "\<not> istiled t a" using Cons.prems istiled_skeleton_eq [OF that(1)] by simp
      then show ?thesis using Cons.IH that(2) by simp
    qed
    show ?thesis
      unfolding monocle_loop.simps Let_def using True
      by (simp add: step skeleton_resize resize_other [OF ne])
  qed
qed

lemma arrangemon_stays_put:
  assumes sp: "stays_put s a"
  shows "cl (arrangemon s (c_mon (cl s a))) a = cl s a"
proof -
  define i where "i = c_mon (cl s a)"
  define s1 where "s1 = upd_mn s i (\<lambda>m. m\<lparr>m_ltsymbol := take 16 (l_symbol (m_lt m))\<rparr>)"
  have sk1: "skeleton s1 = skeleton s" unfolding s1_def by (rule skeleton_ltsymbol)
  have cl1: "cl s1 = cl s" by (simp add: s1_def)
  have lt1: "m_lt (mn s1 i) = m_lt (mn s i)" by (rule skeleton_eq_monitor_fields [OF sk1])
  have am: "arrangemon s i =
      (case l_arrange (m_lt (mn s1 i)) of None \<Rightarrow> s1 | Some tile_fn \<Rightarrow> tile s1 i
       | Some monocle_fn \<Rightarrow> monocle s1 i)"
    unfolding arrangemon_def Let_def s1_def ..
  show ?thesis
  proof (cases "l_arrange (m_lt (mn s i))")
    case None
    then have "arrangemon s i = s1" by (simp only: am lt1 option.case)
    then show ?thesis by (simp add: cl1 i_def)
  next
    case (Some f)
    with sp have "\<not> istiled s a"
      unfolding stays_put_def istiled_def i_def by auto
    then have nt: "\<not> istiled s1 a" using istiled_skeleton_eq [OF sk1] by simp
    have t: "cl (tile s1 i) a = cl s a"
      unfolding tile_def Let_def using tile_loop_not_tiled [OF nt] by (simp add: cl1)
    define s2 where "s2 = (if 0 < length (filter (ISVISIBLE s1) (m_clients (mn s1 i)))
       then upd_mn s1 i (\<lambda>m. m\<lparr>m_ltsymbol :=
              take 15 (''['' @ dec (length (filter (ISVISIBLE s1) (m_clients (mn s1 i)))) @ '']'')\<rparr>)
       else s1)"
    have sk2: "skeleton s2 = skeleton s1" unfolding s2_def by (simp add: skeleton_ltsymbol)
    have cl2: "cl s2 = cl s" unfolding s2_def by (simp add: cl1)
    have nt2: "\<not> istiled s2 a" using nt istiled_skeleton_eq [OF sk2] by simp
    have "monocle s1 i = monocle_loop s2 i (m_clients (mn s2 i))"
      unfolding monocle_def Let_def s2_def ..
    then have m: "cl (monocle s1 i) a = cl s a"
      using monocle_loop_not_tiled [OF nt2] by (simp add: cl2)
    have "arrangemon s i = (case f of tile_fn \<Rightarrow> tile s1 i | monocle_fn \<Rightarrow> monocle s1 i)"
      by (simp only: am lt1 Some option.case)
    then have "cl (arrangemon s i) a = cl s a"
      using t m by (cases f) simp_all
    then show ?thesis by (simp only: i_def)
  qed
qed

lemma arrange_stays_put:
  assumes sp: "stays_put s a"
  shows "cl (arrange s (Some (c_mon (cl s a)))) a = cl s a"
proof -
  define i where "i = c_mon (cl s a)"
  define t where "t = showhide s (m_stack (mn s i))"
  have sk: "skeleton t = skeleton s" unfolding t_def by (rule skeleton_showhide)
  have eq: "cl t a = cl s a" unfolding t_def using sp by (rule showhide_stays_put)
  have spt: "stays_put t a" using sp stays_put_cong [OF sk eq] by simp
  have "cl (arrangemon t (c_mon (cl t a))) a = cl t a" using spt by (rule arrangemon_stays_put)
  then have "cl (arrangemon t i) a = cl s a" by (simp add: eq i_def)
  moreover have "arrange s (Some i) = arrangemon t i"
    by (simp add: arrange_def restack_def t_def)
  ultimately show ?thesis by (simp only: i_def)
qed

lemma setfullscreen_on:
  "setfullscreen s a True =
     upd_cl s a (\<lambda>c. c\<lparr>c_isfullscreen := True, c_oldstate := c_isfloating c, c_oldbw := c_bw c,
        c_bw := 0, c_isfloating := True,
        c_oldx := c_x c, c_x := m_mx (mn s (c_mon c)), c_oldy := c_y c, c_y := m_my (mn s (c_mon c)),
        c_oldw := c_w c, c_w := m_mw (mn s (c_mon c)), c_oldh := c_h c, c_h := m_mh (mn s (c_mon c))\<rparr>)"
  by (simp add: setfullscreen_def resizeclient_def Let_def upd_cl_def)

lemma setfullscreen_off:
  "setfullscreen s a False =
     arrange (upd_cl s a restored) (Some (c_mon (cl s a)))"
  by (simp add: setfullscreen_def resizeclient_def Let_def upd_cl_def restored_def)


lemma applysizehints_cong:
  assumes st: "mn t = mn s" "sw t = sw s" "sh t = sh s" "bh t = bh s"
      and hf: "hint_fields c' = hint_fields c"
  shows "applysizehints t c' r i = applysizehints s c r i"
proof -
  from hf have f:
    "c_x c' = c_x c" "c_y c' = c_y c" "c_w c' = c_w c" "c_h c' = c_h c"
    "c_bw c' = c_bw c" "c_mon c' = c_mon c" "c_sizehints c' = c_sizehints c"
    "c_isfloating c' = c_isfloating c"
    "c_basew c' = c_basew c" "c_baseh c' = c_baseh c" "c_minw c' = c_minw c" "c_minh c' = c_minh c"
    "c_mina c' = c_mina c" "c_maxa c' = c_maxa c"
    "c_incw c' = c_incw c" "c_inch c' = c_inch c" "c_maxw c' = c_maxw c" "c_maxh c' = c_maxh c"
    by (simp_all add: hint_fields_def)
  show ?thesis
    unfolding applysizehints_def sizehints_position_def sizehints_size_def WIDTH_def HEIGHT_def
    by (simp only: st f)
qed

lemma hint_fields_bookkeeping:
  "hint_fields (c\<lparr>c_isfullscreen := fs, c_oldstate := os, c_oldbw := ob,
        c_oldx := ox, c_oldy := oy, c_oldw := ow, c_oldh := oh\<rparr>) = hint_fields c"
  by (simp add: hint_fields_def)

subsection \<open>What \<open>manage\<close> and \<open>focus\<close> leave unchanged\<close>

lemma tagview_upd_cl:
  assumes "\<And>c. c_tags (f c) = c_tags c" "\<And>c. c_mon (f c) = c_mon c"
  shows "tagview (upd_cl s a f) = tagview s"
  by (simp add: tagview_def fun_eq_iff assms)

lemma tagview_setfullscreen_on [simp]: "tagview (setfullscreen s a True) = tagview s"
  unfolding setfullscreen_on by (rule tagview_upd_cl) simp_all

lemma tagview_updatewindowtype [simp]: "tagview (updatewindowtype s a xw) = tagview s"
  by (simp add: updatewindowtype_def Let_def tagview_upd_cl)

lemma tagview_updatesizehints [simp]: "tagview (updatesizehints s a h) = tagview s"
  by (simp add: updatesizehints_def Let_def tagview_def fun_eq_iff)

lemma tagview_updatewmhints [simp]: "tagview (updatewmhints s a h) = tagview s"
  by (simp add: updatewmhints_def Let_def tagview_upd_cl split: option.splits)

lemma tagview_updatetitle [simp]: "tagview (updatetitle s a xw) = tagview s"
  by (simp add: updatetitle_def Let_def tagview_upd_cl)

text \<open>The client lists and the chain of monitors.\<close>

lemma clients_detachstack [simp]: "m_clients (mn (detachstack s a) i) = m_clients (mn s i)"
  by (simp add: detachstack_def Let_def)

lemma clients_attachstack [simp]: "m_clients (mn (attachstack s a) i) = m_clients (mn s i)"
  by (simp add: attachstack_def)

lemma clients_clearurgent [simp]: "m_clients (mn (clearurgent s a) i) = m_clients (mn s i)"
  by (simp add: clearurgent_def)

lemma clients_focus_client [simp]: "m_clients (mn (focus_client s a) i) = m_clients (mn s i)"
  by (simp add: focus_client_def Let_def)

lemma clients_focus [simp]: "m_clients (mn (focus s c) i) = m_clients (mn s i)"
  by (simp add: focus_def Let_def split: option.splits)

lemma mons_detachstack [simp]: "mons (detachstack s a) = mons s"
  by (simp add: detachstack_def Let_def)

lemma mons_attachstack [simp]: "mons (attachstack s a) = mons s"
  by (simp add: attachstack_def)

lemma mons_attach [simp]: "mons (attach s a) = mons s"
  by (simp add: attach_def)

lemma mons_detach [simp]: "mons (detach s a) = mons s"
  by (simp add: detach_def)

lemma mons_unfocus [simp]: "mons (unfocus s c b) = mons s"
  by (simp add: unfocus_def split: option.splits)

lemma mons_clearurgent [simp]: "mons (clearurgent s a) = mons s"
  by (simp add: clearurgent_def)

lemma mons_focus_client [simp]: "mons (focus_client s a) = mons s"
  by (simp add: focus_client_def Let_def)

lemma mons_focus [simp]: "mons (focus s c) = mons s"
  by (simp add: focus_def Let_def split: option.splits)

lemma clients_arrange [simp]: "m_clients (mn (arrange s mo) i) = m_clients (mn s i)"
  by (rule skeleton_eq_monitor_fields [OF skeleton_arrange])

lemma mons_arrange [simp]: "mons (arrange s mo) = mons s"
  by (rule skeleton_eq_globals [OF skeleton_arrange])

lemma wintoclient_cong:
  assumes "mons t = mons s" "\<And>i. m_clients (mn t i) = m_clients (mn s i)"
      and "\<And>b. b \<in> managed s \<Longrightarrow> c_win (cl t b) = c_win (cl s b)"
  shows "wintoclient t w = wintoclient s w"
proof -
  have "find (\<lambda>a. c_win (cl t a) = w) xs = find (\<lambda>a. c_win (cl s a) = w) xs"
    if "set xs \<subseteq> managed s" for xs
    using that assms(3) by (induction xs) auto
  moreover have "set (concat (map (\<lambda>i. m_clients (mn s i)) (mons s))) \<subseteq> managed s"
    by (auto simp: managed_def)
  ultimately show ?thesis
    by (simp add: wintoclient_def assms(1,2))
qed

lemma wintoclient_managed: "wintoclient s w = Some t \<Longrightarrow> t \<in> managed s"
  unfolding wintoclient_def managed_def by (drule find_in_set) auto


lemma manage_finish_tagview [simp]: "tagview (manage_finish s a tw wa xw) = tagview s"
  by (simp add: manage_finish_def Let_def tagview_upd_cl)

lemma clients_upd_cl [simp]: "m_clients (mn (upd_cl s a f) i) = m_clients (mn s i)"
  by simp

lemma clients_setfullscreen_on [simp]: "m_clients (mn (setfullscreen s a True) i) = m_clients (mn s i)"
  unfolding setfullscreen_on by simp

lemma clients_updatewindowtype [simp]: "m_clients (mn (updatewindowtype s a xw) i) = m_clients (mn s i)"
  by (simp add: updatewindowtype_def Let_def)

lemma clients_updatesizehints [simp]: "m_clients (mn (updatesizehints s a h) i) = m_clients (mn s i)"
  by (simp add: updatesizehints_def Let_def)

lemma clients_updatewmhints [simp]: "m_clients (mn (updatewmhints s a h) i) = m_clients (mn s i)"
  by (simp add: updatewmhints_def Let_def split: option.splits)

lemma clients_unfocus [simp]: "m_clients (mn (unfocus s c b) i) = m_clients (mn s i)"
  by simp

lemma clients_manage_finish:
  "m_clients (mn (manage_finish s a tw wa xw) i) =
     (if i = c_mon (cl s a) then a # m_clients (mn s i) else m_clients (mn s i))"
proof -
  define s13 where "s13 = (let s3 = upd_cl s a (\<lambda>c. c\<lparr>c_x := wa_x wa, c_oldx := wa_x wa, c_y := wa_y wa,
                c_oldy := wa_y wa, c_w := wa_width wa, c_oldw := wa_width wa,
                c_h := wa_height wa, c_oldh := wa_height wa, c_oldbw := wa_border_width wa\<rparr>);
         m = mn s3 (c_mon (cl s3 a));
         s4 = upd_cl s3 a (\<lambda>c. if c_x c + c_w c + 2 * borderpx > m_mx m + m_mw m
                then c\<lparr>c_x := m_mx m + m_mw m - c_w c - 2 * borderpx\<rparr> else c);
         s5 = upd_cl s4 a (\<lambda>c. if c_y c + c_h c + 2 * borderpx > m_my m + m_mh m
                then c\<lparr>c_y := m_my m + m_mh m - c_h c - 2 * borderpx\<rparr> else c);
         s6 = upd_cl s5 a (\<lambda>c. c\<lparr>c_x := max (c_x c) (m_mx m)\<rparr>);
         s7 = upd_cl s6 a
                (\<lambda>c. c\<lparr>c_y := max (c_y c) (m_my m + (if m_topbar m then bh s6 else 0))\<rparr>);
         s8 = (if wa_x wa = 0 \<and> wa_y wa = 0
               then upd_cl s7 a (\<lambda>c. c\<lparr>c_x := c_x c + gappx s7, c_y := c_y c + gappx s7\<rparr>)
               else s7);
         s9 = upd_cl s8 a (\<lambda>c. c\<lparr>c_bw := borderpx\<rparr>);
         s10 = updatewindowtype s9 a xw;
         s11 = updatesizehints s10 a (xw_normal_hints xw);
         s12 = updatewmhints s11 a (xw_wm_hints xw)
      in (if \<not> c_isfloating (cl s12 a)
                then upd_cl s12 a (\<lambda>c. c\<lparr>c_oldstate := (tw \<noteq> 0 \<or> c_isfixed c),
                                           c_isfloating := (tw \<noteq> 0 \<or> c_isfixed c)\<rparr>)
                else s12))"
  have tv: "tagview s13 = tagview s"
    by (simp add: s13_def Let_def tagview_upd_cl)
  have cs: "m_clients (mn s13 j) = m_clients (mn s j)" for j
    by (simp add: s13_def Let_def)
  define s15 where "s15 = attachstack (attach s13 a) a"
  have tv15: "tagview s15 = tagview s" by (simp add: s15_def tv)
  have cs15: "m_clients (mn s15 j) = (if j = c_mon (cl s a) then a # m_clients (mn s j) else m_clients (mn s j))" for j
    using tagview_fields(2) [OF tv, of a]
    by (simp add: s15_def attach_def cs)
  have "manage_finish s a tw wa xw =
     (let s16 = (if c_mon (cl s15 a) = selmon s15
                then unfocus s15 (m_sel (mn s15 (selmon s15))) False else s15);
         s17 = upd_mn s16 (c_mon (cl s16 a)) (\<lambda>m. m\<lparr>m_sel := Some a\<rparr>);
         s18 = arrange s17 (Some (c_mon (cl s17 a)))
     in focus s18 None)"
    unfolding manage_finish_def s15_def s13_def Let_def ..
  then show ?thesis
    by (simp add: Let_def cs15)
qed

lemma manage_transient:
  assumes tr: "xw_transient_for xw = Some tr"
      and t: "wintoclient s tr = Some t"
      and fresh: "a \<notin> managed s"
  shows "manage rs s a w wa xw =
     manage_finish
       (upd_cl (updatetitle (upd_cl s a (\<lambda>c. zero_client\<lparr>c_win := w\<rparr>)) a xw) a
          (\<lambda>c. c\<lparr>c_mon := c_mon (cl s t), c_tags := c_tags (cl s t)\<rparr>)) a tr wa xw"
proof -
  define s1 where "s1 = updatetitle (upd_cl s a (\<lambda>c. zero_client\<lparr>c_win := w\<rparr>)) a xw"
  have ta: "t \<noteq> a"
    using wintoclient_managed [OF t] fresh by auto
  have cl1: "cl s1 b = cl s b" if "b \<noteq> a" for b
    using that by (simp add: s1_def updatetitle_def Let_def)
  have "wintoclient s1 tr = wintoclient s tr"
  proof (rule wintoclient_cong)
    show "mons s1 = mons s" by (simp add: s1_def updatetitle_def Let_def)
    show "m_clients (mn s1 i) = m_clients (mn s i)" for i
      by (simp add: s1_def updatetitle_def Let_def)
    show "c_win (cl s1 b) = c_win (cl s b)" if "b \<in> managed s" for b
    proof -
      from that fresh have "b \<noteq> a" by blast
      then show ?thesis by (simp add: cl1)
    qed
  qed
  then have w1: "wintoclient s1 tr = Some t" using t by simp
  have "manage rs s a w wa xw =
      manage_finish
        (let sa = upd_cl s1 a (\<lambda>c. c\<lparr>c_mon := c_mon (cl s1 t)\<rparr>)
         in upd_cl sa a (\<lambda>c. c\<lparr>c_tags := c_tags (cl sa t)\<rparr>)) a tr wa xw"
    unfolding manage_def Let_def s1_def [symmetric] by (simp add: tr w1)
  also have "(let sa = upd_cl s1 a (\<lambda>c. c\<lparr>c_mon := c_mon (cl s1 t)\<rparr>)
         in upd_cl sa a (\<lambda>c. c\<lparr>c_tags := c_tags (cl sa t)\<rparr>)) =
       upd_cl s1 a (\<lambda>c. c\<lparr>c_mon := c_mon (cl s t), c_tags := c_tags (cl s t)\<rparr>)"
    using ta by (simp add: Let_def upd_cl_def cl1)
  finally show ?thesis unfolding s1_def .
qed

subsection \<open>\<open>arrange\<close> does not read the saved fields\<close>

lemma unsaved_eq_globals:
  assumes "unsaved s = unsaved t"
  shows "mn s = mn t" "mons s = mons t" "selmon s = selmon t" "gappx s = gappx t"
    "sw s = sw t" "sh s = sh t" "bh s = bh t"
proof -
  have "mn (unsaved s) = mn (unsaved t)" "mons (unsaved s) = mons (unsaved t)"
    "selmon (unsaved s) = selmon (unsaved t)" "gappx (unsaved s) = gappx (unsaved t)"
    "sw (unsaved s) = sw (unsaved t)" "sh (unsaved s) = sh (unsaved t)"
    "bh (unsaved s) = bh (unsaved t)"
    by (simp_all only: assms)
  then show "mn s = mn t" "mons s = mons t" "selmon s = selmon t" "gappx s = gappx t"
    "sw s = sw t" "sh s = sh t" "bh s = bh t"
    by (simp_all add: unsaved_def)
qed

lemma unsaved_eq_cl:
  assumes "unsaved s = unsaved t"
  shows "unsaved_client (cl s a) = unsaved_client (cl t a)"
proof -
  have "cl (unsaved s) a = cl (unsaved t) a" by (simp only: assms)
  then show ?thesis by (simp add: unsaved_def)
qed

lemma unsaved_client_fields:
  "c_x (unsaved_client c) = c_x c" "c_y (unsaved_client c) = c_y c"
  "c_w (unsaved_client c) = c_w c" "c_h (unsaved_client c) = c_h c"
  "c_bw (unsaved_client c) = c_bw c" "c_tags (unsaved_client c) = c_tags c"
  "c_mon (unsaved_client c) = c_mon c" "c_isfloating (unsaved_client c) = c_isfloating c"
  "c_isfullscreen (unsaved_client c) = c_isfullscreen c"
  "hint_fields (unsaved_client c) = hint_fields c"
  by (simp_all add: unsaved_client_def hint_fields_def)

lemma unsaved_eq_client_fields:
  assumes "unsaved s = unsaved t"
  shows "c_x (cl s a) = c_x (cl t a)" "c_y (cl s a) = c_y (cl t a)"
    "c_w (cl s a) = c_w (cl t a)" "c_h (cl s a) = c_h (cl t a)"
    "c_bw (cl s a) = c_bw (cl t a)" "c_tags (cl s a) = c_tags (cl t a)"
    "c_mon (cl s a) = c_mon (cl t a)" "c_isfloating (cl s a) = c_isfloating (cl t a)"
    "c_isfullscreen (cl s a) = c_isfullscreen (cl t a)"
    "hint_fields (cl s a) = hint_fields (cl t a)"
  using unsaved_client_fields [of "cl s a"] unsaved_client_fields [of "cl t a"]
  unfolding unsaved_eq_cl [OF assms, of a] by simp_all

lemma unsaved_upd_cl:
  "unsaved (upd_cl s a f) = (unsaved s)\<lparr>cl := (cl (unsaved s))(a := unsaved_client (f (cl s a)))\<rparr>"
  by (simp add: unsaved_def upd_cl_def fun_eq_iff)

lemma unsaved_resizeclient:
  assumes "unsaved s = unsaved t"
  shows "unsaved (resizeclient s a x y w h) = unsaved (resizeclient t a x y w h)"
proof -
  have e: "unsaved_client ((cl s a)\<lparr>c_oldx := c_x (cl s a), c_x := x, c_oldy := c_y (cl s a), c_y := y,
            c_oldw := c_w (cl s a), c_w := w, c_oldh := c_h (cl s a), c_h := h\<rparr>) =
        (unsaved_client (cl s a))\<lparr>c_x := x, c_y := y, c_w := w, c_h := h\<rparr>" for s
    by (simp add: unsaved_client_def)
  show ?thesis
    unfolding resizeclient_def unsaved_upd_cl e
    by (simp only: assms unsaved_eq_cl [OF assms])
qed

lemma applysizehints_unsaved_eq:
  assumes "unsaved s = unsaved t"
  shows "applysizehints s (cl s a) r i = applysizehints t (cl t a) r i"
  by (rule applysizehints_cong)
     (simp_all only: unsaved_eq_globals [OF assms] unsaved_eq_client_fields [OF assms])

lemma unsaved_resize:
  assumes "unsaved s = unsaved t"
  shows "unsaved (resize s a x y w h i) = unsaved (resize t a x y w h i)"
  unfolding resize_def applysizehints_unsaved_eq [OF assms, of a]
  by (simp add: split_beta assms unsaved_resizeclient [OF assms])

lemma ISVISIBLE_unsaved_eq:
  assumes "unsaved s = unsaved t"
  shows "ISVISIBLE s = ISVISIBLE t"
  by (simp add: ISVISIBLE_def fun_eq_iff Let_def unsaved_eq_globals [OF assms]
      unsaved_eq_client_fields [OF assms])

lemma istiled_unsaved_eq:
  assumes "unsaved s = unsaved t"
  shows "istiled s = istiled t"
  by (simp add: istiled_def fun_eq_iff ISVISIBLE_unsaved_eq [OF assms]
      unsaved_eq_client_fields [OF assms])

lemma unsaved_showhide:
  assumes "unsaved s = unsaved t"
  shows "unsaved (showhide s as) = unsaved (showhide t as)"
  using assms
proof (induction as arbitrary: s t)
  case Nil
  then show ?case by simp
next
  case (Cons a as)
  note R = Cons.prems
  let ?r = "\<lambda>s. resize s a (c_x (cl s a)) (c_y (cl s a)) (c_w (cl s a)) (c_h (cl s a)) False"
  let ?c = "\<lambda>s. (l_arrange (m_lt (mn s (c_mon (cl s a)))) = None \<or> c_isfloating (cl s a))
              \<and> \<not> c_isfullscreen (cl s a)"
  have r: "unsaved (?r s) = unsaved (?r t)"
    unfolding unsaved_eq_client_fields [OF R] by (rule unsaved_resize [OF R])
  have vis: "ISVISIBLE t a = ISVISIBLE s a"
    by (simp only: ISVISIBLE_unsaved_eq [OF R])
  have c: "?c t = ?c s"
    by (simp only: unsaved_eq_globals [OF R] unsaved_eq_client_fields [OF R])
  consider "ISVISIBLE s a" "?c s" | "ISVISIBLE s a" "\<not> ?c s" | "\<not> ISVISIBLE s a"
    by blast
  then show ?case
  proof cases
    case 1
    then have "showhide s (a # as) = showhide (?r s) as" by simp
    moreover from 1 vis c have "showhide t (a # as) = showhide (?r t) as" by simp
    ultimately show ?thesis using Cons.IH [OF r] by (simp only:)
  next
    case 2
    then have "showhide s (a # as) = showhide s as" by auto
    moreover from 2 vis c have "showhide t (a # as) = showhide t as" by auto
    ultimately show ?thesis using Cons.IH [OF R] by (simp only:)
  next
    case 3
    then have "showhide s (a # as) = showhide s as" by simp
    moreover from 3 vis have "showhide t (a # as) = showhide t as" by simp
    ultimately show ?thesis using Cons.IH [OF R] by (simp only:)
  qed
qed

lemma unsaved_tile_loop:
  assumes "unsaved s = unsaved t"
  shows "unsaved (tile_loop s i n an mw as k my ty) = unsaved (tile_loop t i n an mw as k my ty)"
  using assms
proof (induction as arbitrary: s t k my ty)
  case Nil
  then show ?case by simp
next
  case (Cons a as)
  note R = Cons.prems
  note g = unsaved_eq_globals [OF R]
  note f = unsaved_eq_client_fields [OF R, of a]
  have til: "istiled t a = istiled s a"
    by (simp only: istiled_unsaved_eq [OF R])
  show ?case
  proof (cases "istiled s a")
    case False
    then have "tile_loop s i n an mw (a # as) k my ty = tile_loop s i n an mw as k my ty" by simp
    moreover from False til
    have "tile_loop t i n an mw (a # as) k my ty = tile_loop t i n an mw as k my ty" by simp
    ultimately show ?thesis using Cons.IH [OF R] by (simp only:)
  next
    case True
    show ?thesis
    proof (cases "k < an")
      case master: True
      define h where "h = u32 (m_wh (mn t i) - my) div u32 (min n an - k)"
      define x where "x = m_wx (mn t i) + gappx t"
      define y where "y = s32 (m_wy (mn t i) + my + gappx t)"
      define w where "w = s32 (mw - 2 * c_bw (cl t a) - 2 * gappx t)"
      define h' where "h' = s32 (h - 2 * c_bw (cl t a) - 2 * gappx t)"
      define s1 where "s1 = resize s a x y w h' False"
      define t1 where "t1 = resize t a x y w h' False"
      have R1: "unsaved s1 = unsaved t1"
        unfolding s1_def t1_def by (rule unsaved_resize [OF R])
      have e: "HEIGHT (cl s1 a) = HEIGHT (cl t1 a)" "gappx s1 = gappx t1"
        by (simp_all only: HEIGHT_def unsaved_eq_client_fields [OF R1] unsaved_eq_globals [OF R1])
      have "tile_loop s i n an mw (a # as) k my ty =
            tile_loop s1 i n an mw as (u32 (k + 1)) (u32 (my + HEIGHT (cl s1 a) + 2 * gappx s1)) ty"
        using True master
        by (simp add: Let_def s1_def x_def y_def w_def h'_def h_def g f)
      moreover have "tile_loop t i n an mw (a # as) k my ty =
            tile_loop t1 i n an mw as (u32 (k + 1)) (u32 (my + HEIGHT (cl t1 a) + 2 * gappx t1)) ty"
        using True til master
        by (simp add: Let_def t1_def x_def y_def w_def h'_def h_def)
      ultimately show ?thesis
        using Cons.IH [OF R1] by (simp only: e)
    next
      case stack: False
      define h where "h = u32 (m_wh (mn t i) - ty) div u32 (n - k)"
      define x where "x = s32 (m_wx (mn t i) + mw + gappx t)"
      define y where "y = s32 (m_wy (mn t i) + ty + gappx t)"
      define w where "w = s32 (m_ww (mn t i) - mw - 2 * c_bw (cl t a) - 2 * gappx t)"
      define h' where "h' = s32 (h - 2 * c_bw (cl t a) - 2 * gappx t)"
      define s1 where "s1 = resize s a x y w h' False"
      define t1 where "t1 = resize t a x y w h' False"
      have R1: "unsaved s1 = unsaved t1"
        unfolding s1_def t1_def by (rule unsaved_resize [OF R])
      have e: "HEIGHT (cl s1 a) = HEIGHT (cl t1 a)" "gappx s1 = gappx t1"
        by (simp_all only: HEIGHT_def unsaved_eq_client_fields [OF R1] unsaved_eq_globals [OF R1])
      have "tile_loop s i n an mw (a # as) k my ty =
            tile_loop s1 i n an mw as (u32 (k + 1)) my (u32 (ty + HEIGHT (cl s1 a) + 2 * gappx s1))"
        using True stack
        by (simp add: Let_def s1_def x_def y_def w_def h'_def h_def g f)
      moreover have "tile_loop t i n an mw (a # as) k my ty =
            tile_loop t1 i n an mw as (u32 (k + 1)) my (u32 (ty + HEIGHT (cl t1 a) + 2 * gappx t1))"
        using True til stack
        by (simp add: Let_def t1_def x_def y_def w_def h'_def h_def)
      ultimately show ?thesis
        using Cons.IH [OF R1] by (simp only: e)
    qed
  qed
qed

lemma unsaved_monocle_loop:
  assumes "unsaved s = unsaved t"
  shows "unsaved (monocle_loop s i as) = unsaved (monocle_loop t i as)"
  using assms
proof (induction as arbitrary: s t)
  case Nil
  then show ?case by simp
next
  case (Cons a as)
  note R = Cons.prems
  note g = unsaved_eq_globals [OF R]
  note f = unsaved_eq_client_fields [OF R, of a]
  have til: "istiled t a = istiled s a"
    by (simp only: istiled_unsaved_eq [OF R])
  show ?case
  proof (cases "istiled s a")
    case False
    then have "monocle_loop s i (a # as) = monocle_loop s i as" by simp
    moreover from False til have "monocle_loop t i (a # as) = monocle_loop t i as" by simp
    ultimately show ?thesis using Cons.IH [OF R] by (simp only:)
  next
    case True
    define x where "x = m_wx (mn t i) + gappx t"
    define y where "y = m_wy (mn t i) + gappx t"
    define w where "w = m_ww (mn t i) - 2 * c_bw (cl t a) - 2 * gappx t"
    define h where "h = m_wh (mn t i) - 2 * c_bw (cl t a) - 2 * gappx t"
    define s1 where "s1 = resize s a x y w h False"
    define t1 where "t1 = resize t a x y w h False"
    have R1: "unsaved s1 = unsaved t1"
      unfolding s1_def t1_def by (rule unsaved_resize [OF R])
    have "monocle_loop s i (a # as) = monocle_loop s1 i as"
      using True by (simp add: Let_def s1_def x_def y_def w_def h_def g f)
    moreover have "monocle_loop t i (a # as) = monocle_loop t1 i as"
      using True til by (simp add: Let_def t1_def x_def y_def w_def h_def)
    ultimately show ?thesis
      using Cons.IH [OF R1] by (simp only:)
  qed
qed

lemma unsaved_tile:
  assumes "unsaved s = unsaved t"
  shows "unsaved (tile s i) = unsaved (tile t i)"
  unfolding tile_def Let_def istiled_unsaved_eq [OF assms] unsaved_eq_globals [OF assms]
  by (simp only: if_distrib [of unsaved] assms unsaved_tile_loop [OF assms])

lemma unsaved_upd_mn:
  assumes "unsaved s = unsaved t"
  shows "unsaved (upd_mn s i f) = unsaved (upd_mn t i f)"
proof -
  have "unsaved (upd_mn u i f) = (unsaved u)\<lparr>mn := (mn (unsaved u))(i := f (mn (unsaved u) i))\<rparr>" for u
    by (simp add: unsaved_def upd_mn_def)
  then show ?thesis by (simp only: assms)
qed

lemma unsaved_monocle:
  assumes "unsaved s = unsaved t"
  shows "unsaved (monocle s i) = unsaved (monocle t i)"
proof -
  define f where "f = (\<lambda>u. if length (filter (ISVISIBLE u) (m_clients (mn u i))) > 0
       then upd_mn u i (\<lambda>m. m\<lparr>m_ltsymbol :=
              take 15 (''['' @ dec (length (filter (ISVISIBLE u) (m_clients (mn u i)))) @ '']'')\<rparr>)
       else u)"
  have R1: "unsaved (f s) = unsaved (f t)"
    unfolding f_def ISVISIBLE_unsaved_eq [OF assms] unsaved_eq_globals [OF assms]
    by (simp only: if_distrib [of unsaved] assms unsaved_upd_mn [OF assms])
  have "monocle u i = monocle_loop (f u) i (m_clients (mn (f u) i))" for u
    by (simp only: monocle_def Let_def f_def)
  then show ?thesis
    by (simp only: unsaved_eq_globals [OF R1] unsaved_monocle_loop [OF R1])
qed

lemma unsaved_arrangemon:
  assumes "unsaved s = unsaved t"
  shows "unsaved (arrangemon s i) = unsaved (arrangemon t i)"
proof -
  define f where "f = (\<lambda>u. upd_mn u i (\<lambda>m. m\<lparr>m_ltsymbol := take 16 (l_symbol (m_lt m))\<rparr>))"
  have R1: "unsaved (f s) = unsaved (f t)"
    unfolding f_def by (rule unsaved_upd_mn [OF assms])
  have a: "arrangemon u i = (case l_arrange (m_lt (mn (f u) i)) of
          None \<Rightarrow> f u | Some tile_fn \<Rightarrow> tile (f u) i | Some monocle_fn \<Rightarrow> monocle (f u) i)" for u
    by (simp only: arrangemon_def Let_def f_def)
  show ?thesis
    unfolding a unsaved_eq_globals [OF R1]
    by (cases "l_arrange (m_lt (mn (f t) i))"; cases "the (l_arrange (m_lt (mn (f t) i)))")
       (simp_all only: option.case arrange_fn.case option.sel R1 unsaved_tile [OF R1]
          unsaved_monocle [OF R1])
qed

lemma unsaved_fold_showhide:
  assumes "unsaved s = unsaved t"
  shows "unsaved (fold (\<lambda>i u. showhide u (m_stack (mn u i))) js s) =
         unsaved (fold (\<lambda>i u. showhide u (m_stack (mn u i))) js t)"
  using assms
proof (induction js arbitrary: s t)
  case Nil
  then show ?case by simp
next
  case (Cons j js)
  have "unsaved (showhide s (m_stack (mn s j))) = unsaved (showhide t (m_stack (mn t j)))"
    unfolding unsaved_eq_globals [OF Cons.prems] by (rule unsaved_showhide [OF Cons.prems])
  then show ?case unfolding fold_simps o_apply by (rule Cons.IH)
qed

lemma unsaved_fold_arrangemon:
  assumes "unsaved s = unsaved t"
  shows "unsaved (fold (\<lambda>i u. arrangemon u i) js s) = unsaved (fold (\<lambda>i u. arrangemon u i) js t)"
  using assms
proof (induction js arbitrary: s t)
  case Nil
  then show ?case by simp
next
  case (Cons j js)
  have "unsaved (arrangemon s j) = unsaved (arrangemon t j)"
    by (rule unsaved_arrangemon [OF Cons.prems])
  then show ?case unfolding fold_simps o_apply by (rule Cons.IH)
qed

lemma unsaved_arrange:
  assumes "unsaved s = unsaved t"
  shows "unsaved (arrange s mo) = unsaved (arrange t mo)"
proof (cases mo)
  case None
  define f where "f = (\<lambda>u. fold (\<lambda>i v. showhide v (m_stack (mn v i))) (mons u) u)"
  have R1: "unsaved (f s) = unsaved (f t)"
    unfolding f_def unsaved_eq_globals [OF assms] by (rule unsaved_fold_showhide [OF assms])
  have "arrange u None = fold (\<lambda>i v. arrangemon v i) (mons (f u)) (f u)" for u
    by (simp add: arrange_def Let_def f_def)
  then show ?thesis
    unfolding None by (simp only: unsaved_eq_globals [OF R1] unsaved_fold_arrangemon [OF R1])
next
  case (Some i)
  have "unsaved (showhide s (m_stack (mn s i))) = unsaved (showhide t (m_stack (mn t i)))"
    unfolding unsaved_eq_globals [OF assms] by (rule unsaved_showhide [OF assms])
  then have "unsaved (arrangemon (showhide s (m_stack (mn s i))) i) =
             unsaved (arrangemon (showhide t (m_stack (mn t i))) i)"
    by (rule unsaved_arrangemon)
  then show ?thesis
    unfolding Some by (simp only: arrange_def restack_def option.case)
qed

subsection \<open>C8: command line\<close>

text \<open>
  C8 as stated (\<open>-v\<close> prints the version and exits with status 0) fails: the version
  is printed through \<open>die\<close>, whose exit status is \<open>EXIT_FAILURE\<close>.
\<close>

theorem C8_version_exit_status_counterexample:
  "exit_status (main ''6.1+'' ''2012+'' [''dwm'', ''-v'']) \<noteq> Some 0"
  by (simp add: main_def die_def EXIT_FAILURE_def)

text \<open>
  C8 (amended): with the single argument \<open>-v\<close> the program writes its version text
  and exits with status 1; with any other non-empty argument list it writes the usage
  text and exits with status 1.
\<close>

theorem C8_main_arguments:
  "(argv = [prog, ''-v''] \<longrightarrow> main ver yr argv = Exit (version_text ver yr) 1) \<and>
   (length argv \<noteq> 1 \<and> (\<forall>p. argv \<noteq> [p, ''-v'']) \<longrightarrow> main ver yr argv = Exit usage_text 1)"
proof (intro conjI impI)
  assume "argv = [prog, ''-v'']"
  then show "main ver yr argv = Exit (version_text ver yr) 1"
    by (simp add: main_def die_def EXIT_FAILURE_def)
next
  assume a: "length argv \<noteq> 1 \<and> (\<forall>p. argv \<noteq> [p, ''-v''])"
  have n: "\<not> (length argv = 2 \<and> argv ! 1 = ''-v'')"
  proof
    assume b: "length argv = 2 \<and> argv ! 1 = ''-v''"
    then obtain p q where "argv = [p, q]"
      by (cases argv; cases "tl argv") auto
    with a b show False by auto
  qed
  from a have "length argv \<noteq> 1" by simp
  with n show "main ver yr argv = Exit usage_text 1"
    unfolding main_def die_def EXIT_FAILURE_def by (simp only: if_False if_True simp_thms)
qed

theorem C8_main_arguments_witness:
  "main ''6.1+'' ''2012+'' [''dwm'', ''-v''] = Exit (version_text ''6.1+'' ''2012+'') 1 \<and>
   main ''6.1+'' ''2012+'' [''dwm'', ''-x'', ''y''] = Exit usage_text 1"
  using C8_main_arguments [of "[''dwm'', ''-v'']" "''dwm''" "''6.1+''" "''2012+''"]
        C8_main_arguments [of "[''dwm'', ''-x'', ''y'']" "''dwm''" "''6.1+''" "''2012+''"]
  by simp

subsection \<open>C6: idempotence of \<open>applysizehints\<close>\<close>

text \<open>
  C6 as stated (idempotence for every client) fails: with width increment 10 and
  maximum width 95, a request of width 105 is snapped to 100 and cut to 95; applied
  to the result, the snapping gives 90.
\<close>

theorem C6_applysizehints_not_idempotent_counterexample:
  "snd (applysizehints ex_state ex_client_inc
          (snd (applysizehints ex_state ex_client_inc (0, 19, 105, 100) False)) False)
   \<noteq> snd (applysizehints ex_state ex_client_inc (0, 19, 105, 100) False)"
  by code_simp

text \<open>
  C6 (amended): \<open>applysizehints\<close> is idempotent for every client whose size hints
  cannot shrink a request (no resize increments, no maximum size and no aspect limits,
  or size hints not applied to it at all), when the area the position is clamped
  against is not empty and the \<open>int\<close> arithmetic does not overflow (\<open>no_overflow\<close>: the
  request within \<open>2 ^ 29\<close>, the client's geometry, base and minimum size, the work area,
  the screen size and the bar height within \<open>2 ^ 26\<close>).
\<close>

theorem C6_applysizehints_idempotent:
  assumes ns: "hints_cannot_shrink s c" and ap: "area_positive s c interact"
      and no: "no_overflow s c r"
  shows "snd (applysizehints s c (snd (applysizehints s c r interact)) interact)
         = snd (applysizehints s c r interact)"
proof -
  obtain x y w h where r: "r = (x, y, w, h)" by (cases r) auto
  note b = no_overflowD [OF no [unfolded r]]
  have bh1: "\<bar>max 1 w\<bar> \<le> 2 ^ 29" "\<bar>max 1 h\<bar> \<le> 2 ^ 29"
    using b(3,4) by (simp_all add: abs_le_iff max_def)
  have no1: "no_overflow s c (x, y, max 1 w, max 1 h)"
    using no b(1,2) bh1 by (rule no_overflow_request)
  obtain x' y' where p: "sizehints_position s c interact (x, y, max 1 w, max 1 h) = (x', y')"
    by (cases "sizehints_position s c interact (x, y, max 1 w, max 1 h)") auto
  define w2 where "w2 = (if max 1 w < bh s then bh s else max 1 w)"
  define h2 where "h2 = (if max 1 h < bh s then bh s else max 1 h)"
  have b2: "\<bar>w2\<bar> \<le> 2 ^ 29" "\<bar>h2\<bar> \<le> 2 ^ 29"
    using b(3,4,14) by (auto simp: w2_def h2_def abs_le_iff max_def)
  let ?hinted = "c_sizehints c \<or> c_isfloating c \<or> l_arrange (m_lt (mn s (c_mon c))) = None"
  obtain qw qh where q: "(if ?hinted then sizehints_size c (w2, h2) else (w2, h2)) = (qw, qh)"
    by (cases "if ?hinted then sizehints_size c (w2, h2) else (w2, h2)") auto
  have first: "snd (applysizehints s c r interact) = (x', y', qw, qh)"
    unfolding r applysizehints_unfold Let_def p
    using q unfolding w2_def h2_def by simp
  have z: "c_incw c = 0 \<and> c_inch c = 0 \<and> c_maxw c = 0 \<and> c_maxh c = 0 \<and>
           \<not> (float_less (Finite 0) (c_mina c) \<and> float_less (Finite 0) (c_maxa c))"
    if ?hinted
    using ns that unfolding hints_cannot_shrink_def by auto
  have qq: "(qw, qh) = (w2, h2) \<or>
            (?hinted \<and> (qw, qh) = (max w2 (c_minw c), max h2 (c_minh c)))"
  proof (cases ?hinted)
    case True
    have "sizehints_size c (w2, h2) = (max w2 (c_minw c), max h2 (c_minh c))"
      using z [OF True] b2 b(8,9) by (simp add: sizehints_size_min_only)
    with True q show ?thesis by simp
  next
    case False
    with q show ?thesis by simp
  qed
  have lo: "1 \<le> w2" "bh s \<le> w2" "max 1 w \<le> w2" "1 \<le> h2" "bh s \<le> h2" "max 1 h \<le> h2"
    by (auto simp: w2_def h2_def)
  have qge: "w2 \<le> qw" "h2 \<le> qh"
    using qq by auto
  have bq: "\<bar>qw\<bar> \<le> 2 ^ 29" "\<bar>qh\<bar> \<le> 2 ^ 29"
    using qq b2 b(10,11) by (auto simp: abs_le_iff)
  have ge: "max 1 w \<le> max 1 qw" "max 1 h \<le> max 1 qh"
    using lo qge by linarith+
  have bq1: "\<bar>max 1 qw\<bar> \<le> 2 ^ 29" "\<bar>max 1 qh\<bar> \<le> 2 ^ 29"
    using bq by (simp_all add: abs_le_iff max_def)
  have ap': "if interact then sw s > 0 \<and> sh s \<ge> 0
             else m_ww (mn s (c_mon c)) > 0 \<and> m_wh (mn s (c_mon c)) > 0"
    using ap unfolding area_positive_def .
  have p': "sizehints_position s c interact (x', y', max 1 qw, max 1 qh) = (x', y')"
    using ap' no1 p ge bq1 by (rule sizehints_position_stable(1))
  have fix2: "(if max 1 qw < bh s then bh s else max 1 qw) = qw"
             "(if max 1 qh < bh s then bh s else max 1 qh) = qh"
    using lo qge by auto
  have q2: "(if ?hinted then sizehints_size c (qw, qh) else (qw, qh)) = (qw, qh)"
  proof (cases ?hinted)
    case True
    have "sizehints_size c (w2, h2) = (max w2 (c_minw c), max h2 (c_minh c))"
      using z [OF True] b2 b(8,9) by (simp add: sizehints_size_min_only)
    with True q have "qw = max w2 (c_minw c)" "qh = max h2 (c_minh c)" by simp_all
    moreover have "sizehints_size c (qw, qh) = (max qw (c_minw c), max qh (c_minh c))"
      using z [OF True] bq b(8,9) by (simp add: sizehints_size_min_only)
    ultimately show ?thesis using True by simp
  next
    case False
    then show ?thesis by auto
  qed
  have "applysizehints s c (x', y', qw, qh) interact =
        (x' \<noteq> c_x c \<or> y' \<noteq> c_y c \<or> qw \<noteq> c_w c \<or> qh \<noteq> c_h c, x', y', qw, qh)"
    unfolding applysizehints_unfold Let_def p' fix2 q2 by simp
  then show ?thesis
    unfolding first by simp
qed

text \<open>The theorem for a request that is moved back into the work area and enlarged.\<close>

theorem C6_applysizehints_idempotent_witness:
  "snd (applysizehints ex_state ex_client
          (snd (applysizehints ex_state ex_client (2000, -700, 3, 5000) False)) False)
   = snd (applysizehints ex_state ex_client (2000, -700, 3, 5000) False)"
proof -
  have h1: "hints_cannot_shrink ex_state ex_client"
    by (simp add: hints_cannot_shrink_def ex_client_def)
  have h2: "area_positive ex_state ex_client False"
    by (simp add: area_positive_def ex_state_def ex_mon_def)
  have h3: "no_overflow ex_state ex_client (2000, -700, 3, 5000)"
    by (simp add: no_overflow_def ex_state_def ex_mon_def ex_client_def)
  show ?thesis by (rule C6_applysizehints_idempotent [OF h1 h2 h3])
qed

subsection \<open>C3: \<open>view\<close> twice\<close>

text \<open>
  C3 as stated fails: when \<open>y\<close> is the tag-set that was active before \<open>view(x)\<close>,
  \<open>view(y)\<close> switches back to it, so the active tag-set after both calls is \<open>y\<close> and
  not \<open>x\<close>. Here tag 1 is active, \<open>x = 2\<close> and \<open>y = 1\<close>.
\<close>

theorem C3_view_back_counterexample:
  "(2 :: 32 word) AND TAGMASK \<noteq> 0 \<and>
   active_tagset (view (view ex_state 2) (active_tagset ex_state (selmon ex_state))) (selmon ex_state) \<noteq> 2"
proof -
  define i where "i = selmon ex_state"
  define t where "t = view ex_state 2"
  have st: "stack_on_monitor ex_state (selmon ex_state)"
    by (simp add: stack_on_monitor_def ex_state_fields(2-))
  have a0: "active_tagset ex_state i = 1"
    by (simp add: active_tagset_def ex_state_fields(2-))
  note e1 = view_effect [OF st, of 2, folded i_def t_def]
  have st': "stack_on_monitor t (selmon t)"
    using e1(1,2) by simp
  note e2 = view_effect [OF st', of 1, unfolded e1(1)]
  have t: "m_seltags (mn t i) = 1" "m_tagset (mn t i) = (\<lambda>i. 1)(1 := 2)"
    using e1(3,4) by (simp_all add: a0 ex_state_fields(2-) TAGMASK_value)
  have "active_tagset (view t 1) i = 1"
    using e2(3,4) by (simp add: active_tagset_def t TAGMASK_value)
  then show ?thesis
    by (simp add: a0 TAGMASK_value i_def [symmetric] t_def [symmetric])
qed


text \<open>
  C3 (amended): on a monitor whose focus stack holds only its own clients, with active
  tag-set \<open>y\<close> contained in \<open>TAGMASK\<close> and a mask \<open>x\<close> with \<open>x & TAGMASK\<close> nonzero:
  after \<open>view(x)\<close> the active tag-set is \<open>x & TAGMASK\<close>, and after \<open>view(x)\<close> followed
  by \<open>view(y)\<close> it is \<open>y\<close> again.
\<close>

theorem C3_view_then_view_back:
  assumes x: "x AND TAGMASK \<noteq> 0"
      and y: "y = active_tagset s (selmon s)"
      and ym: "y AND TAGMASK = y"
      and st: "stack_on_monitor s (selmon s)"
  shows "active_tagset (view s x) (selmon s) = x AND TAGMASK \<and>
         active_tagset (view (view s x) y) (selmon s) = y"
proof -
  define i where "i = selmon s"
  define t where "t = view s x"
  define u where "u = view t y"
  define sl where "sl = m_seltags (mn s i)"
  define ts where "ts = m_tagset (mn s i)"
  have y': "y = ts sl" using y by (simp add: active_tagset_def ts_def sl_def i_def)
  note e1 = view_effect [OF st, of x, folded t_def i_def]
  have st': "stack_on_monitor t (selmon t)" using e1(1,2) by simp
  note e2 = view_effect [OF st', of y, folded u_def, unfolded e1(1)]
  have t_sl: "m_seltags (mn t i) = (if x AND TAGMASK = y then sl else sl XOR 1)"
    using e1(3) y by (simp add: sl_def i_def)
  have t_ts: "m_tagset (mn t i) = (if x AND TAGMASK = y then ts else ts(sl XOR 1 := x AND TAGMASK))"
    using e1(4) y x by (simp add: sl_def ts_def i_def)
  have a1: "active_tagset t i = x AND TAGMASK"
    unfolding active_tagset_def t_sl t_ts using y' by simp
  have u_sl: "m_seltags (mn u i) = (if y = x AND TAGMASK then m_seltags (mn t i) else m_seltags (mn t i) XOR 1)"
    using e2(3) a1 ym by simp
  have u_ts: "m_tagset (mn u i) = (if y = x AND TAGMASK \<or> y = 0 then m_tagset (mn t i)
                else (m_tagset (mn t i))(m_seltags (mn t i) XOR 1 := y))"
    using e2(4) a1 ym by simp
  have a2: "active_tagset u i = y"
  proof (cases "x AND TAGMASK = y")
    case True
    then show ?thesis
      unfolding active_tagset_def u_sl u_ts t_sl t_ts using y' by simp
  next
    case False
    then have ne: "y \<noteq> x AND TAGMASK" by simp
    show ?thesis
      unfolding active_tagset_def u_sl u_ts t_sl t_ts using y' False ne
      by (simp add: xor_one_twice xor_one_neq xor_one_neq [THEN not_sym])
  qed
  from a1 a2 show ?thesis by (simp add: t_def u_def i_def)
qed

theorem C3_view_then_view_back_witness:
  "active_tagset (view ex_state 2) (selmon ex_state) = 2 AND TAGMASK \<and>
   active_tagset (view (view ex_state 2) 1) (selmon ex_state) = 1"
proof -
  have h1: "(2 :: 32 word) AND TAGMASK \<noteq> 0" by (simp add: TAGMASK_value)
  have h2: "(1 :: 32 word) = active_tagset ex_state (selmon ex_state)"
    by (simp add: active_tagset_def ex_state_fields(2-))
  have h3: "(1 :: 32 word) AND TAGMASK = 1" by (simp add: TAGMASK_value)
  have h4: "stack_on_monitor ex_state (selmon ex_state)"
    by (simp add: stack_on_monitor_def ex_state_fields(2-))
  show ?thesis by (rule C3_view_then_view_back [OF h1 h2 h3 h4])
qed

subsection \<open>C5: fullscreen round trip\<close>

text \<open>
  C5 as stated fails for a visible tiled client: leaving fullscreen ends with
  \<open>arrange\<close>, and the tile layout places the client over the work area instead of
  the saved geometry (100,100,800,600).
\<close>

theorem C5_fullscreen_geometry_counterexample:
  "\<not> c_isfullscreen (cl ex_state1 7) \<and> geom (cl ex_state1 7) = (100, 100, 800, 600) \<and>
   geom (cl (setfullscreen (setfullscreen ex_state1 7 True) 7 False) 7) = (5, 24, 1906, 1047)"
  by code_simp

text \<open>
  C5 (amended): for a non-fullscreen client, setting fullscreen makes it fullscreen and
  floating with border width 0 and the geometry of the monitor rectangle; setting
  fullscreen off again restores the border width and the floating flag, writes the saved
  geometry back and re-arranges the monitor of the client. The state after the round
  trip is the state that \<open>arrange\<close> on that monitor produces from the state before the
  round trip, apart from the saved fields (\<open>unsaved\<close>): the client ends with the
  geometry that \<open>arrange\<close> gives it from its saved geometry, which is the saved geometry
  itself whenever \<open>arrange\<close> does not move the client, as for a hidden client, and
  the place the layout computes for a visible tiled client.
\<close>

theorem C5_fullscreen_round_trip:
  assumes nf: "\<not> c_isfullscreen (cl s a)"
  shows "(let s1 = setfullscreen s a True; m = mn s (c_mon (cl s a)) in
            c_isfullscreen (cl s1 a) \<and> c_bw (cl s1 a) = 0 \<and> c_isfloating (cl s1 a) \<and>
            geom (cl s1 a) = (m_mx m, m_my m, m_mw m, m_mh m)) \<and>
         (let s2 = setfullscreen (setfullscreen s a True) a False;
              s3 = arrange s (Some (c_mon (cl s a))) in
            \<not> c_isfullscreen (cl s2 a) \<and> c_bw (cl s2 a) = c_bw (cl s a) \<and>
            c_isfloating (cl s2 a) = c_isfloating (cl s a) \<and>
            geom (cl s2 a) = geom (cl s3 a) \<and> unsaved s2 = unsaved s3 \<and>
            (\<not> ISVISIBLE s a \<longrightarrow> geom (cl s2 a) = geom (cl s a)))"
proof -
  define c0 where "c0 = cl s a"
  define s1 where "s1 = setfullscreen s a True"
  define c8 where "c8 = c0\<lparr>c_isfullscreen := False, c_oldstate := c_isfloating c0, c_oldbw := c_bw c0,
        c_oldx := c_x c0, c_oldy := c_y c0, c_oldw := c_w c0, c_oldh := c_h c0\<rparr>"
  define s8 where "s8 = upd_cl s1 a restored"
  define s2 where "s2 = setfullscreen s1 a False"
  define s3 where "s3 = arrange s (Some (c_mon c0))"
  have part1: "c_isfullscreen (cl s1 a) \<and> c_bw (cl s1 a) = 0 \<and> c_isfloating (cl s1 a) \<and>
            geom (cl s1 a) = (m_mx (mn s (c_mon c0)), m_my (mn s (c_mon c0)),
                              m_mw (mn s (c_mon c0)), m_mh (mn s (c_mon c0)))"
    by (simp add: s1_def setfullscreen_on geom_def c0_def)
  have mon1: "c_mon (cl s1 a) = c_mon c0"
    by (simp add: s1_def setfullscreen_on c0_def)
  have cl8: "cl s8 a = c8"
    using nf by (simp add: s8_def s1_def setfullscreen_on restored_def c8_def c0_def)
  have s8': "s8 = upd_cl s a (\<lambda>c. c8)"
    unfolding s8_def s1_def setfullscreen_on using cl8 [unfolded s8_def s1_def setfullscreen_on]
    by (simp add: upd_cl_def)
  have s2': "s2 = arrange s8 (Some (c_mon c0))"
    by (simp add: s2_def setfullscreen_off s8_def mon1 cl8 [unfolded s8_def] c8_def restored_def)
  have sk: "skeleton s2 = skeleton s8" unfolding s2' by (rule skeleton_arrange)
  have part2: "\<not> c_isfullscreen (cl s2 a) \<and> c_bw (cl s2 a) = c_bw c0 \<and>
               c_isfloating (cl s2 a) = c_isfloating c0"
    by (simp add: skeleton_eq_client_fields [OF sk] cl8 c8_def)
  have "unsaved_client c8 = unsaved_client c0"
    using nf by (simp add: c8_def unsaved_client_def c0_def)
  then have "(\<lambda>b. unsaved_client (cl s b))(a := unsaved_client c8) =
             (\<lambda>b. unsaved_client (cl s b))"
    by (simp add: fun_eq_iff c0_def)
  then have "unsaved s8 = unsaved s"
    unfolding s8' unsaved_upd_cl by (simp add: unsaved_def)
  then have part3: "unsaved s2 = unsaved s3"
    unfolding s2' s3_def by (rule unsaved_arrange)
  have part4: "geom (cl s2 a) = geom (cl s3 a)"
    by (simp only: geom_def unsaved_eq_client_fields [OF part3])
  have part5: "geom (cl s2 a) = geom c0" if hid: "\<not> ISVISIBLE s a"
  proof -
    from hid have "stays_put s a" by (simp add: stays_put_def)
    then have "cl (arrange s (Some (c_mon (cl s a)))) a = cl s a"
      by (rule arrange_stays_put)
    then show ?thesis
      unfolding part4 s3_def c0_def by simp
  qed
  show ?thesis
    using part1 part2 part3 part4 part5
    by (simp add: Let_def s1_def [symmetric] s2_def [symmetric] s3_def [symmetric]
        c0_def [symmetric])
qed

text \<open>
  The theorem for the hidden client of \<open>ex_state1_hidden\<close>, whose geometry is restored,
  and for the visible tiled client of \<open>ex_state1\<close>, which ends where \<open>arrange\<close> puts it.
\<close>

theorem C5_fullscreen_round_trip_witness:
  "\<not> c_isfullscreen (cl ex_state1_hidden 7) \<and> \<not> ISVISIBLE ex_state1_hidden 7 \<and>
   geom (cl (setfullscreen (setfullscreen ex_state1_hidden 7 True) 7 False) 7)
     = geom (cl ex_state1_hidden 7) \<and>
   \<not> c_isfullscreen (cl ex_state1 7) \<and>
   geom (cl (setfullscreen (setfullscreen ex_state1 7 True) 7 False) 7)
     = geom (cl (arrange ex_state1 (Some 1)) 7)"
proof -
  have h1: "\<not> c_isfullscreen (cl ex_state1_hidden 7)" by code_simp
  have h2: "\<not> ISVISIBLE ex_state1_hidden 7" by code_simp
  have h3: "\<not> c_isfullscreen (cl ex_state1 7)" by code_simp
  have m: "c_mon (cl ex_state1 7) = 1" by code_simp
  have a: "geom (cl (setfullscreen (setfullscreen ex_state1_hidden 7 True) 7 False) 7)
             = geom (cl ex_state1_hidden 7)"
    using C5_fullscreen_round_trip [OF h1, unfolded Let_def] h2 by blast
  have b: "geom (cl (setfullscreen (setfullscreen ex_state1 7 True) 7 False) 7)
             = geom (cl (arrange ex_state1 (Some (c_mon (cl ex_state1 7)))) 7)"
    using C5_fullscreen_round_trip [OF h3, unfolded Let_def] by blast
  show ?thesis
    using h1 h2 h3 a b [unfolded m] by (intro conjI)
qed

subsection \<open>C2: the selected client of a monitor is visible\<close>

text \<open>
  C2 at a concrete input. In \<open>ex_two_mon\<close> every monitor's selection is visible (neither
  monitor has one). A window 101 whose \<open>WM_TRANSIENT_FOR\<close> names window 100 is then
  managed (structure at address 8): it inherits monitor 1 and tag 1 from client 7,
  \<open>manage\<close> stores it into \<open>sel\<close> of monitor 1 without looking at the tags that monitor
  shows (tag 2), and the closing \<open>focus(NULL)\<close> only repairs the selected monitor 2.
  Monitor 1 is left with a selected client that is not visible on it.
\<close>

theorem C2_manage_selects_hidden_client:
  "sel_visible ex_two_mon \<and>
   m_sel (mn (manage rules ex_two_mon 8 101 ex_wa (ex_xwin\<lparr>xw_transient_for := Some 100\<rparr>)) 1)
     = Some 8 \<and>
   \<not> ISVISIBLE (manage rules ex_two_mon 8 101 ex_wa (ex_xwin\<lparr>xw_transient_for := Some 100\<rparr>)) 8 \<and>
   \<not> sel_visible (manage rules ex_two_mon 8 101 ex_wa (ex_xwin\<lparr>xw_transient_for := Some 100\<rparr>))"
  by code_simp

subsection \<open>C10: a transient window inherits monitor and tags\<close>

text \<open>
  C10: when the window has a \<open>WM_TRANSIENT_FOR\<close> hint naming the window of a managed
  client \<open>t\<close>, the new client (a fresh structure \<open>a\<close>) gets the monitor of \<open>t\<close> and
  exactly the tags of \<open>t\<close>, it is put at the head of the client list of that monitor, and
  the rule table is not consulted: \<open>manage\<close> gives the same state for every rule table.
\<close>

theorem C10_transient_client_inherits:
  assumes tr: "xw_transient_for xw = Some tr"
      and t: "wintoclient s tr = Some t"
      and fresh: "a \<notin> managed s"
  shows "c_mon (cl (manage rs s a w wa xw) a) = c_mon (cl s t) \<and>
         c_tags (cl (manage rs s a w wa xw) a) = c_tags (cl s t) \<and>
         m_clients (mn (manage rs s a w wa xw) (c_mon (cl s t))) =
           a # m_clients (mn s (c_mon (cl s t))) \<and>
         manage rs' s a w wa xw = manage rs s a w wa xw"
proof -
  define s2 where "s2 = upd_cl (updatetitle (upd_cl s a (\<lambda>c. zero_client\<lparr>c_win := w\<rparr>)) a xw) a
          (\<lambda>c. c\<lparr>c_mon := c_mon (cl s t), c_tags := c_tags (cl s t)\<rparr>)"
  have m: "manage r s a w wa xw = manage_finish s2 a tr wa xw" for r
    unfolding s2_def by (rule manage_transient [OF assms])
  have c2: "c_mon (cl s2 a) = c_mon (cl s t)" "c_tags (cl s2 a) = c_tags (cl s t)"
    by (simp_all add: s2_def)
  have cs2: "m_clients (mn s2 i) = m_clients (mn s i)" for i
    by (simp add: s2_def updatetitle_def Let_def)
  have tv: "tagview (manage_finish s2 a tr wa xw) = tagview s2" by simp
  show ?thesis
    unfolding m using tagview_fields(1,2) [OF tv, of a]
    by (simp add: c2 clients_manage_finish cs2)
qed

text \<open>The theorem at \<open>ex_two_mon\<close>, for a window 101 that is transient for window 100.\<close>

theorem C10_transient_client_inherits_witness:
  "xw_transient_for (ex_xwin\<lparr>xw_transient_for := Some 100\<rparr>) = Some 100 \<and>
   wintoclient ex_two_mon 100 = Some 7 \<and> 8 \<notin> managed ex_two_mon \<and>
   c_mon (cl (manage rules ex_two_mon 8 101 ex_wa (ex_xwin\<lparr>xw_transient_for := Some 100\<rparr>)) 8) = 1 \<and>
   c_tags (cl (manage rules ex_two_mon 8 101 ex_wa (ex_xwin\<lparr>xw_transient_for := Some 100\<rparr>)) 8) = 1 \<and>
   m_clients (mn (manage rules ex_two_mon 8 101 ex_wa (ex_xwin\<lparr>xw_transient_for := Some 100\<rparr>)) 1) = [8, 7] \<and>
   manage [] ex_two_mon 8 101 ex_wa (ex_xwin\<lparr>xw_transient_for := Some 100\<rparr>) =
     manage rules ex_two_mon 8 101 ex_wa (ex_xwin\<lparr>xw_transient_for := Some 100\<rparr>)"
proof -
  have h: "xw_transient_for (ex_xwin\<lparr>xw_transient_for := Some 100\<rparr>) = Some 100"
    "wintoclient ex_two_mon 100 = Some 7" "8 \<notin> managed ex_two_mon"
    by (simp, code_simp, simp add: managed_def ex_two_mon_def ex_mon_def)
  have f: "c_mon (cl ex_two_mon 7) = 1" "c_tags (cl ex_two_mon 7) = 1"
    "m_clients (mn ex_two_mon 1) = [7]"
    by (simp_all add: ex_two_mon_def ex_client_def ex_mon_def)
  show ?thesis
    using C10_transient_client_inherits [OF h, of rules 101 ex_wa "[]"] h
    by (simp only: f simp_thms)
qed

end
